theory Spec2Isabelle
  imports Complex_Main "HOL-Library.Word"
begin

unbundle bit_operations_syntax

section \<open>Deterministic PRNG utilities (lib/rng)\<close>

text \<open>
  JavaScript numbers are modelled as follows. The integer operators of the generator
  (\<^verbatim>\<open>>>> 0\<close>, \<^verbatim>\<open>| 0\<close>, \<^verbatim>\<open>^\<close>, \<^verbatim>\<open>Math.imul\<close>) work on the low 32 bits of
  their operands: these are values of type \<open>32 word\<close>. A seed is a whole number
  (\<open>int\<close>). Every other number is a \<open>real\<close>: the rounding of double arithmetic is
  not modelled.
\<close>

type_synonym u32 = "32 word"

text \<open>\<^verbatim>\<open>Math.imul(a, b)\<close>: the low 32 bits of the product.\<close>

definition imul :: "u32 \<Rightarrow> u32 \<Rightarrow> u32" where
  "imul a b = a * b"

text \<open>
  \<^verbatim>\<open>mulberry32(seed)\<close> returns a closure over the variable \<^verbatim>\<open>t\<close>. The closure is
  modelled by its state: \<open>mulberry32 seed\<close> is the initial value of \<^verbatim>\<open>t\<close>
  (\<^verbatim>\<open>seed >>> 0\<close>), and \<open>mulberry32_call t\<close> is one call of the closure, returning the
  number produced and the new value of \<^verbatim>\<open>t\<close>. The source adds to \<^verbatim>\<open>t\<close> without
  truncating it, so \<^verbatim>\<open>t\<close> is a natural number here and each use truncates it
  (a double holds \<^verbatim>\<open>t\<close> exactly for the first millions of calls of a stream; no
  stream of the program is called more than a few thousand times).
\<close>

definition mulberry32 :: "int \<Rightarrow> nat" where
  "mulberry32 seed = unat (word_of_int seed :: u32)"

definition mulberry32_call :: "nat \<Rightarrow> real \<times> nat" where
  "mulberry32_call t0 =
     (let t = t0 + 0x6d2b79f5;
          w = (word_of_nat t :: u32);
          r = imul (w XOR drop_bit 15 w) (w OR 1);
          r = r XOR (r + imul (r XOR drop_bit 7 r) (r OR 61))
      in (real (unat (r XOR drop_bit 14 r)) / 4294967296, t))"

text \<open>
  \<^verbatim>\<open>mixSeed(...parts)\<close>: the loop over the parts, then \<^verbatim>\<open>h >>> 0\<close>. The sum
  \<^verbatim>\<open>x + 0x7feb352d + (h << 6) + (h >>> 2)\<close> is taken in numbers and truncated by
  \<^verbatim>\<open>^=\<close>, which is addition of words.
\<close>

definition mixStep :: "u32 \<Rightarrow> int \<Rightarrow> u32" where
  "mixStep h p =
     (let x = (word_of_int p :: u32) XOR drop_bit 16 h;
          x = imul x 0x45d9f3b;
          x = x XOR drop_bit 16 x;
          x = imul x 0x45d9f3b;
          x = x XOR drop_bit 16 x
      in h XOR (x + 0x7feb352d + push_bit 6 h + drop_bit 2 h))"

definition mixSeed :: "int list \<Rightarrow> int" where
  "mixSeed parts = uint (foldl mixStep (0x9e3779b9 :: u32) parts)"

text \<open>\<^verbatim>\<open>a ^ b\<close> on numbers: both operands truncated to 32 bits, the result signed.\<close>

definition xor32 :: "int \<Rightarrow> int \<Rightarrow> int" where
  "xor32 a b = sint ((word_of_int a :: u32) XOR word_of_int b)"

text \<open>The first \<open>k\<close> numbers that a stream produces from the state \<open>t\<close>.\<close>

fun draws :: "nat \<Rightarrow> nat \<Rightarrow> real list" where
  "draws 0 t = []"
| "draws (Suc k) t = (let (v, t') = mulberry32_call t in v # draws k t')"

text \<open>\<^verbatim>\<open>Math.floor\<close> of a number, as a number.\<close>

definition jsfloor :: "real \<Rightarrow> real" where
  "jsfloor x = of_int \<lfloor>x\<rfloor>"


section \<open>The scene data (components/StarCanvas, components/AsteroidBeltsControls)\<close>

text \<open>
  An optional field that is \<^verbatim>\<open>undefined\<close> is \<open>None\<close>. The fields of a record carry a
  prefix, since field names are constants of the theory.
\<close>

record rings =
  r_enabled :: bool
  r_gap :: real
  r_width :: real
  r_color :: string
  r_opacity :: real
  r_flatten :: real
  r_angleDeg :: real

text \<open>The type \<^verbatim>\<open>Planet\<close>.\<close>

record planet =
  p_orbitRadius :: real
  p_size :: real
  p_angle :: real
  p_color :: string
  p_name :: string
  p_moons :: "real option"
  p_showLabel :: "bool option"
  p_rings :: "rings option"

text \<open>The type \<^verbatim>\<open>Station\<close>.\<close>

datatype iconType = Diamond | Triangle | Square | Cross | Satellite

record station =
  st_id :: "string option"
  st_name :: "string option"
  st_radius :: real
  st_angle :: real
  st_iconType :: iconType
  st_color :: string
  st_size :: real
  st_customIconDataUrl :: "string option"
  st_showLabel :: "bool option"

text \<open>
  The type \<^verbatim>\<open>BeltConfig\<close>. A gap index is a whole number: an index with a fraction
  reads \<^verbatim>\<open>undefined\<close> from the planet array, as an index out of range does.
\<close>

datatype beltType = Free | Anchored

record beltConfig =
  b_type :: beltType
  b_width :: real
  b_density :: real
  b_gapIndex :: "int option"

datatype labelPos = TopLeft | TopRight | BottomLeft | BottomRight

datatype starType = Yellow | RedDwarf | BlueGiant | Neutron | BlackHole

text \<open>
  The type \<^verbatim>\<open>PlanetModel\<close>, as the editor uses it for the overrides: an object that has
  some of the fields. The overrides never carry an orbit radius or an angle that the editor
  reads, so these two fields are left out.
\<close>

record planetModel =
  pm_size :: "real option"
  pm_color :: "string option"
  pm_name :: "string option"
  pm_moons :: "real option"
  pm_showLabel :: "bool option"
  pm_rings :: "rings option"

text \<open>\<^verbatim>\<open>xs[i]\<close> on an array: \<^verbatim>\<open>undefined\<close> out of range.\<close>

definition js_nth :: "'a list \<Rightarrow> int \<Rightarrow> 'a option" where
  "js_nth xs i = (if 0 \<le> i \<and> i < int (length xs) then Some (xs ! nat i) else None)"

text \<open>
  \<^verbatim>\<open>xs[i] = v\<close> on an array with holes (a hole is \<open>None\<close>): writing past the end
  extends the array with holes.
\<close>

definition js_set :: "'a option list \<Rightarrow> nat \<Rightarrow> 'a \<Rightarrow> 'a option list" where
  "js_set xs i v =
     (if i < length xs then xs[i := Some v]
      else xs @ replicate (i - length xs) None @ [Some v])"

text \<open>\<^verbatim>\<open>xs.length = n\<close>: truncates the array or extends it with holes.\<close>

definition js_set_length :: "'a option list \<Rightarrow> nat \<Rightarrow> 'a option list" where
  "js_set_length xs n = take n xs @ replicate (n - length xs) None"

section \<open>The generator (StarSystemEditor)\<close>

definition palette :: "string list" where
  "palette = [''#8AB4F8'', ''#F28B82'', ''#FDD663'', ''#81C995'',
              ''#CF9FFF'', ''#F6AEA9'', ''#B4C7E7'', ''#D7CCC8'']"

definition ringColors :: "string list" where
  "ringColors = [''#c9b18b'', ''#a0a0a0'', ''#b68d5a'']"

text \<open>
  The moon count of planet \<open>i\<close>: the first number of the stream
  \<^verbatim>\<open>mulberry32(mixSeed(seed, 0xdeadbe, i))\<close>, times 4, floored.
\<close>

definition moonsGen :: "int \<Rightarrow> nat \<Rightarrow> real" where
  "moonsGen seed i =
     jsfloor (fst (mulberry32_call (mulberry32 (mixSeed [seed, 0xdeadbe, int i]))) * 4)"

text \<open>
  The rings of planet \<open>i\<close>, from the stream \<^verbatim>\<open>mulberry32(mixSeed(seed, 0x13579b, i))\<close>:
  the first number decides the presence, the next six give the parameters in the order
  of the object literal.
\<close>

definition ringsGen :: "int \<Rightarrow> nat \<Rightarrow> rings option" where
  "ringsGen seed i =
     (let t0 = mulberry32 (mixSeed [seed, 0x13579b, int i]);
          (h, t1) = mulberry32_call t0
      in if h < 0.25 then
           (let (g, t2) = mulberry32_call t1;
                (w, t3) = mulberry32_call t2;
                (c, t4) = mulberry32_call t3;
                (ob, t5) = mulberry32_call t4;
                (f, t6) = mulberry32_call t5;
                (a, t7) = mulberry32_call t6
            in Some \<lparr> r_enabled = True,
                      r_gap = jsfloor (1 + g * 4),
                      r_width = jsfloor (6 + w * 16),
                      r_color = ringColors ! nat \<lfloor>c * 3\<rfloor>,
                      r_opacity = 0.4 + ob * 0.3,
                      r_flatten = 0.5 + f * 0.4,
                      r_angleDeg = jsfloor (30 + a * 60) \<rparr>)
         else None)"

text \<open>
  The loop of \<^verbatim>\<open>basePlanets\<close>, from index \<open>i\<close> with \<open>k\<close> iterations left:
  \<open>t\<close> is the state of the stream \<^verbatim>\<open>rand\<close> and \<open>currentOrbit\<close> the running radius.
\<close>

fun basePlanets_loop :: "int \<Rightarrow> nat \<Rightarrow> nat \<Rightarrow> nat \<Rightarrow> real \<Rightarrow> planet list" where
  "basePlanets_loop seed 0 i t currentOrbit = []"
| "basePlanets_loop seed (Suc k) i t currentOrbit =
     (let (g, t1) = mulberry32_call t;
          gap = 35 + g * (70 - 35);
          currentOrbit = currentOrbit + gap;
          (s, t2) = mulberry32_call t1;
          sz = 4 + jsfloor (s * 10);
          (a, t3) = mulberry32_call t2;
          ang = a * pi * 2;
          (c, t4) = mulberry32_call t3;
          col = palette ! nat \<lfloor>c * real (length palette)\<rfloor>
      in \<lparr> p_orbitRadius = currentOrbit, p_size = sz, p_angle = ang, p_color = col,
           p_name = [], p_moons = Some (moonsGen seed i), p_showLabel = None,
           p_rings = ringsGen seed i \<rparr>
         # basePlanets_loop seed k (Suc i) t4 currentOrbit)"

definition basePlanets :: "int \<Rightarrow> nat \<Rightarrow> planet list" where
  "basePlanets seed numPlanets = basePlanets_loop seed numPlanets 0 (mulberry32 seed) 40"

text \<open>Default planet names, from the stream \<^verbatim>\<open>mulberry32(seed ^ 0x51a5a5)\<close>.\<close>

definition prefixes :: "string list" where
  "prefixes = [''Zeta'', ''Epsilon'', ''Delta'', ''Theta'', ''Omega'', ''Sigma'', ''Alpha'',
               ''Beta'', ''Gamma'', ''Kappa'', ''Rho'', ''Tau'', ''Xi'']"

definition suffixes :: "string list" where
  "suffixes = [''I'', ''II'', ''III'', ''IV'', ''V'', ''VI'', ''VII'', ''VIII'', ''IX'', ''X'']"

definition syll :: "string list" where
  "syll = [''ka'', ''tor'', ''vel'', ''ria'', ''zan'', ''kor'', ''tal'', ''xen'', ''ili'',
           ''dra'', ''nus'', ''mir'', ''pho'', ''lyr'', ''cyg'']"

text \<open>\<^verbatim>\<open>toUpperCase\<close> on a character (the letters a to z are the ones that occur).\<close>

definition toUpperCase :: "char \<Rightarrow> char" where
  "toUpperCase c =
     (if 97 \<le> (of_char c :: nat) \<and> (of_char c :: nat) \<le> 122
      then char_of ((of_char c :: nat) - 32) else c)"

text \<open>\<^verbatim>\<open>name.charAt(0).toUpperCase() + name.slice(1)\<close>.\<close>

definition capitalize :: "string \<Rightarrow> string" where
  "capitalize s = (case s of [] \<Rightarrow> [] | c # cs \<Rightarrow> toUpperCase c # cs)"

text \<open>The inner loop that appends \<open>parts\<close> syllables to the name.\<close>

fun syllables :: "nat \<Rightarrow> nat \<Rightarrow> string \<Rightarrow> string \<times> nat" where
  "syllables 0 t nm = (nm, t)"
| "syllables (Suc j) t nm =
     (let (r, t') = mulberry32_call t
      in syllables j t' (nm @ syll ! nat \<lfloor>r * real (length syll)\<rfloor>))"

fun defaultNames_loop :: "nat \<Rightarrow> nat \<Rightarrow> string list" where
  "defaultNames_loop 0 t = []"
| "defaultNames_loop (Suc k) t =
     (let (r, t1) = mulberry32_call t
      in if r < 0.5 then
           (let (a, t2) = mulberry32_call t1;
                p = prefixes ! nat \<lfloor>a * real (length prefixes)\<rfloor>;
                (b, t3) = mulberry32_call t2;
                s = suffixes ! nat \<lfloor>b * real (length suffixes)\<rfloor>
            in (p @ '' '' @ s) # defaultNames_loop k t3)
         else
           (let (a, t2) = mulberry32_call t1;
                parts = 2 + nat \<lfloor>a * 2\<rfloor>;
                (nm, t3) = syllables parts t2 []
            in capitalize nm # defaultNames_loop k t3))"

text \<open>
  \<^verbatim>\<open>defaultNames\<close> maps over \<^verbatim>\<open>basePlanets\<close>, whose length is the planet count.
\<close>

definition defaultNames :: "int \<Rightarrow> nat \<Rightarrow> string list" where
  "defaultNames seed numPlanets =
     defaultNames_loop (length (basePlanets seed numPlanets)) (mulberry32 (xor32 seed 0x51a5a5))"


section \<open>The editor state (StarSystemEditor)\<close>

text \<open>
  The state of the component: the values of its \<^verbatim>\<open>useState\<close> hooks that the scene
  depends on. \<^verbatim>\<open>customNames\<close> is a \<^verbatim>\<open>Record<number, string>\<close>: a map.
  \<^verbatim>\<open>planetOverrides\<close> is an array that may have holes.
\<close>

record editor =
  ed_numPlanets :: nat
  ed_seed :: int
  ed_labelSize :: real
  ed_labelColor :: string
  ed_showLabelBackground :: bool
  ed_labelPosition :: labelPos
  ed_customNames :: "nat \<rightharpoonup> string"
  ed_belts :: "beltConfig list"
  ed_stations :: "station list"
  ed_planetOverrides :: "planetModel option list"

text \<open>The moon parameters are state without a setter: constants.\<close>

definition showMoons :: bool where "showMoons = True"
definition moonMinSize :: real where "moonMinSize = 1"
definition moonMaxSize :: real where "moonMaxSize = 3"
definition moonOrbitMin :: real where "moonOrbitMin = 10"
definition moonOrbitMax :: real where "moonOrbitMax = 22"

text \<open>The state of a freshly mounted editor with the given seed.\<close>

definition initialEditor :: "int \<Rightarrow> editor" where
  "initialEditor s =
     \<lparr> ed_numPlanets = 6, ed_seed = s, ed_labelSize = 12, ed_labelColor = ''#ffffff'',
       ed_showLabelBackground = False, ed_labelPosition = TopLeft,
       ed_customNames = Map.empty, ed_belts = [], ed_stations = [],
       ed_planetOverrides = [] \<rparr>"

text \<open>\<^verbatim>\<open>planetOverrides[i]\<close>: \<^verbatim>\<open>undefined\<close> out of range and at a hole.\<close>

definition overrideAt :: "editor \<Rightarrow> nat \<Rightarrow> planetModel option" where
  "overrideAt st i =
     (if i < length (ed_planetOverrides st) then ed_planetOverrides st ! i else None)"

text \<open>\<^verbatim>\<open>planetOverrides[i]?.f\<close> for a field \<open>f\<close>.\<close>

definition overrideField :: "editor \<Rightarrow> nat \<Rightarrow> (planetModel \<Rightarrow> 'a option) \<Rightarrow> 'a option" where
  "overrideField st i f = (case overrideAt st i of None \<Rightarrow> None | Some m \<Rightarrow> f m)"

text \<open>The decimal numeral of a number, for \<^verbatim>\<open>`Planet ${index + 1}`\<close>.\<close>

definition digitChar :: "nat \<Rightarrow> char" where
  "digitChar d = char_of (of_char CHR ''0'' + d)"

fun decimal :: "nat \<Rightarrow> string" where
  "decimal n = (if 10 \<le> n then decimal (n div 10) @ [digitChar (n mod 10)] else [digitChar n])"

declare decimal.simps [simp del]

definition ed_basePlanets :: "editor \<Rightarrow> planet list" where
  "ed_basePlanets st = basePlanets (ed_seed st) (ed_numPlanets st)"

definition ed_defaultNames :: "editor \<Rightarrow> string list" where
  "ed_defaultNames st = defaultNames (ed_seed st) (ed_numPlanets st)"

text \<open>
  \<^verbatim>\<open>customNames[index] ?? planetOverrides[index]?.name ?? defaultNames[index] ??
  `Planet ${index + 1}`\<close>.
\<close>

definition getPlanetName :: "editor \<Rightarrow> nat \<Rightarrow> string" where
  "getPlanetName st index =
     (case ed_customNames st index of
        Some s \<Rightarrow> s
      | None \<Rightarrow>
          (case overrideField st index pm_name of
             Some s \<Rightarrow> s
           | None \<Rightarrow>
               (if index < length (ed_defaultNames st) then ed_defaultNames st ! index
                else ''Planet '' @ decimal (index + 1))))"

text \<open>
  Compose final planets with overrides and names: the body of the \<^verbatim>\<open>map\<close> in
  \<^verbatim>\<open>planets\<close>, then the list.
\<close>

definition composePlanet :: "editor \<Rightarrow> nat \<Rightarrow> planet \<Rightarrow> planet" where
  "composePlanet st i src =
     \<lparr> p_orbitRadius = p_orbitRadius src,
       p_size = (case overrideField st i pm_size of Some v \<Rightarrow> v | None \<Rightarrow> p_size src),
       p_angle = p_angle src,
       p_color = (case overrideField st i pm_color of Some v \<Rightarrow> v | None \<Rightarrow> p_color src),
       p_name = getPlanetName st i,
       p_moons = overrideField st i pm_moons,
       p_showLabel = overrideField st i pm_showLabel,
       p_rings = (case overrideField st i pm_rings of Some v \<Rightarrow> Some v | None \<Rightarrow> p_rings src) \<rparr>"

definition planets :: "editor \<Rightarrow> planet list" where
  "planets st = map (\<lambda>(i, src). composePlanet st i src) (enumerate 0 (ed_basePlanets st))"

text \<open>
  The effect that keeps the length of the overrides in sync with the planet count.
\<close>

definition syncOverrides :: "editor \<Rightarrow> editor" where
  "syncOverrides st =
     (if length (ed_planetOverrides st) = length (ed_basePlanets st) then st
      else st\<lparr>ed_planetOverrides :=
                js_set_length (ed_planetOverrides st) (length (ed_basePlanets st))\<rparr>)"

text \<open>
  \<^verbatim>\<open>{ ...old, ...updates }\<close>: a field that \<^verbatim>\<open>updates\<close> has replaces the old one.
\<close>

definition spread1 :: "'a option \<Rightarrow> 'a option \<Rightarrow> 'a option" where
  "spread1 old upd = (case upd of Some v \<Rightarrow> Some v | None \<Rightarrow> old)"

definition spreadModel :: "planetModel \<Rightarrow> planetModel \<Rightarrow> planetModel" where
  "spreadModel old upd =
     \<lparr> pm_size = spread1 (pm_size old) (pm_size upd),
       pm_color = spread1 (pm_color old) (pm_color upd),
       pm_name = spread1 (pm_name old) (pm_name upd),
       pm_moons = spread1 (pm_moons old) (pm_moons upd),
       pm_showLabel = spread1 (pm_showLabel old) (pm_showLabel upd),
       pm_rings = spread1 (pm_rings old) (pm_rings upd) \<rparr>"

definition emptyModel :: planetModel where
  "emptyModel = \<lparr> pm_size = None, pm_color = None, pm_name = None, pm_moons = None,
                  pm_showLabel = None, pm_rings = None \<rparr>"

text \<open>
  The \<^verbatim>\<open>onChange\<close> handler that the editor gives to the planet controls:
  \<^verbatim>\<open>copy[index] = { ...(copy[index] ?? {}), ...updates }\<close>, and the custom name when
  the update has a name.
\<close>

definition onPlanetChange :: "nat \<Rightarrow> planetModel \<Rightarrow> editor \<Rightarrow> editor" where
  "onPlanetChange index updates st =
     (let old = (case overrideAt st index of Some m \<Rightarrow> m | None \<Rightarrow> emptyModel);
          st1 = st\<lparr>ed_planetOverrides :=
                      js_set (ed_planetOverrides st) index (spreadModel old updates)\<rparr>
      in case pm_name updates of
           Some nm \<Rightarrow> st1\<lparr>ed_customNames := (ed_customNames st1)(index \<mapsto> nm)\<rparr>
         | None \<Rightarrow> st1)"

text \<open>
  \<^verbatim>\<open>handleNumChange(value)\<close>: \<^verbatim>\<open>Math.max(0, Math.min(20, Math.floor(value)))\<close>.
\<close>

definition handleNumChange :: "real \<Rightarrow> editor \<Rightarrow> editor" where
  "handleNumChange v st = st\<lparr>ed_numPlanets := nat (max 0 (min 20 \<lfloor>v\<rfloor>))\<rparr>"

section \<open>The snapshot document (exportJSON, onImportFileChange)\<close>

text \<open>
  The document is modelled after \<^verbatim>\<open>JSON.stringify\<close> and \<^verbatim>\<open>JSON.parse\<close>: a property
  whose value is \<^verbatim>\<open>undefined\<close> is absent (\<open>None\<close>). The properties that the import
  tests (\<^verbatim>\<open>typeof p.size === "number"\<close>, \<^verbatim>\<open>p.rings.gap ?? 2\<close>) are optional; where
  they are present they have the type that the export writes.
\<close>

record docMoon =
  dm_angle :: real
  dm_orbit :: real
  dm_size :: real
  dm_x :: real
  dm_y :: real

record docRings =
  dr_enabled :: "bool option"
  dr_gap :: "real option"
  dr_width :: "real option"
  dr_color :: "string option"
  dr_opacity :: "real option"
  dr_flatten :: "real option"
  dr_angleDeg :: "real option"

record docPlanet =
  dp_orbitRadius :: real
  dp_size :: "real option"
  dp_angle :: real
  dp_color :: "string option"
  dp_name :: "string option"
  dp_moonsCount :: "real option"
  dp_rings :: "docRings option"
  dp_x :: real
  dp_y :: real
  dp_moons :: "docMoon list"
  dp_showLabel :: "bool option"

record docSettings =
  ds_showMoons :: bool
  ds_moonMinSize :: real
  ds_moonMaxSize :: real
  ds_moonOrbitMin :: real
  ds_moonOrbitMax :: real
  ds_labelSize :: "real option"
  ds_labelColor :: "string option"
  ds_showLabelBackground :: "bool option"
  ds_belts :: "beltConfig list option"
  ds_stations :: "station list option"

record document =
  d_seed :: "int option"
  d_settings :: "docSettings option"
  d_planets :: "docPlanet list option"

text \<open>
  The moons of one planet in the export: \<^verbatim>\<open>Array.from({ length: moonCount }).map(...)\<close>,
  each element drawing the angle, the orbit and the size from \<^verbatim>\<open>rgen\<close> in this order.
  The loop has \<open>k\<close> elements left and the stream state \<open>t\<close>.
\<close>

fun exportMoons_loop :: "nat \<Rightarrow> nat \<Rightarrow> planet \<Rightarrow> real \<Rightarrow> real \<Rightarrow> docMoon list" where
  "exportMoons_loop 0 t p px py = []"
| "exportMoons_loop (Suc k) t p px py =
     (let (a, t1) = mulberry32_call t;
          ma = a * pi * 2;
          (b, t2) = mulberry32_call t1;
          mOrbit = moonOrbitMin + b * max 0 (moonOrbitMax - moonOrbitMin);
          mx = px + cos ma * (p_size p + mOrbit);
          my = py + sin ma * (p_size p + mOrbit);
          (c, t3) = mulberry32_call t2;
          mSize = moonMinSize + c * (moonMaxSize - moonMinSize)
      in \<lparr> dm_angle = ma, dm_orbit = mOrbit, dm_size = mSize, dm_x = mx, dm_y = my \<rparr>
         # exportMoons_loop k t3 p px py)"

text \<open>The array length of \<^verbatim>\<open>Array.from({ length: n })\<close>: \<open>n\<close> truncated, at least 0.\<close>

definition toLength :: "real \<Rightarrow> nat" where
  "toLength n = nat \<lfloor>n\<rfloor>"

definition exportRings :: "rings \<Rightarrow> docRings" where
  "exportRings r =
     \<lparr> dr_enabled = Some (r_enabled r), dr_gap = Some (r_gap r), dr_width = Some (r_width r),
       dr_color = Some (r_color r), dr_opacity = Some (r_opacity r),
       dr_flatten = Some (r_flatten r), dr_angleDeg = Some (r_angleDeg r) \<rparr>"

text \<open>The body of \<^verbatim>\<open>planets.forEach((p, idx) => ...)\<close> in \<^verbatim>\<open>exportJSON\<close>.\<close>

definition exportPlanet :: "int \<Rightarrow> nat \<Rightarrow> planet \<Rightarrow> docPlanet" where
  "exportPlanet sd idx p =
     (let px = 0 + cos (p_angle p) * p_orbitRadius p;
          py = 0 + sin (p_angle p) * p_orbitRadius p;
          perPlanetCount = (case p_moons p of Some m \<Rightarrow> m | None \<Rightarrow> 0);
          rgen = mulberry32 (mixSeed [sd, 0xc0ffee, int idx + 1]);
          moonCount = (if showMoons \<and> moonMaxSize \<ge> moonMinSize \<and> perPlanetCount > 0
                       then perPlanetCount else 0)
      in \<lparr> dp_orbitRadius = p_orbitRadius p,
           dp_size = Some (p_size p),
           dp_angle = p_angle p,
           dp_color = Some (p_color p),
           dp_name = Some (p_name p),
           dp_moonsCount = p_moons p,
           dp_rings = map_option exportRings (p_rings p),
           dp_x = px, dp_y = py,
           dp_moons = exportMoons_loop (toLength moonCount) rgen p px py,
           dp_showLabel = Some (p_showLabel p \<noteq> Some False) \<rparr>)"

definition exportStation :: "station \<Rightarrow> station" where
  "exportStation s = s\<lparr>st_showLabel := Some (st_showLabel s \<noteq> Some False)\<rparr>"

definition exportJSON :: "editor \<Rightarrow> document" where
  "exportJSON st =
     \<lparr> d_seed = Some (ed_seed st),
       d_settings = Some
         \<lparr> ds_showMoons = showMoons, ds_moonMinSize = moonMinSize,
           ds_moonMaxSize = moonMaxSize, ds_moonOrbitMin = moonOrbitMin,
           ds_moonOrbitMax = moonOrbitMax,
           ds_labelSize = Some (ed_labelSize st),
           ds_labelColor = Some (ed_labelColor st),
           ds_showLabelBackground = Some (ed_showLabelBackground st),
           ds_belts = Some (ed_belts st),
           ds_stations = Some (map exportStation (ed_stations st)) \<rparr>,
       d_planets = Some (map (\<lambda>(idx, p). exportPlanet (ed_seed st) idx p)
                           (enumerate 0 (planets st))) \<rparr>"

text \<open>The import, in the order of its state updates.\<close>

definition importRings :: "docRings \<Rightarrow> rings" where
  "importRings r =
     \<lparr> r_enabled = (case dr_enabled r of Some b \<Rightarrow> b | None \<Rightarrow> False),
       r_gap = (case dr_gap r of Some v \<Rightarrow> v | None \<Rightarrow> 2),
       r_width = (case dr_width r of Some v \<Rightarrow> v | None \<Rightarrow> 10),
       r_color = (case dr_color r of Some v \<Rightarrow> v | None \<Rightarrow> ''#c9b18b''),
       r_opacity = (case dr_opacity r of Some v \<Rightarrow> v | None \<Rightarrow> 0.55),
       r_flatten = (case dr_flatten r of Some v \<Rightarrow> v | None \<Rightarrow> 0.6),
       r_angleDeg = (case dr_angleDeg r of Some v \<Rightarrow> v | None \<Rightarrow> 45) \<rparr>"

definition importOverride :: "docPlanet \<Rightarrow> planetModel" where
  "importOverride p =
     \<lparr> pm_size = dp_size p,
       pm_color = dp_color p,
       pm_name = None,
       pm_moons = dp_moonsCount p,
       pm_showLabel = Some (dp_showLabel p \<noteq> Some False),
       pm_rings = map_option importRings (dp_rings p) \<rparr>"

text \<open>\<^verbatim>\<open>if (p?.name) names[idx] = String(p.name)\<close>: an empty name is falsy.\<close>

fun importNames :: "nat \<Rightarrow> docPlanet list \<Rightarrow> (nat \<rightharpoonup> string) \<Rightarrow> (nat \<rightharpoonup> string)" where
  "importNames idx [] names = names"
| "importNames idx (p # ps) names =
     importNames (Suc idx) ps
       (case dp_name p of
          Some nm \<Rightarrow> (if nm \<noteq> [] then names(idx \<mapsto> nm) else names)
        | None \<Rightarrow> names)"

definition importStation :: "station \<Rightarrow> station" where
  "importStation s = s\<lparr>st_showLabel := Some (st_showLabel s \<noteq> Some False)\<rparr>"

definition importPlanets :: "docPlanet list \<Rightarrow> editor \<Rightarrow> editor" where
  "importPlanets ps st =
     st\<lparr> ed_numPlanets := length ps,
         ed_planetOverrides := map (\<lambda>p. Some (importOverride p)) ps,
         ed_customNames := importNames 0 ps Map.empty \<rparr>"

definition importSettings :: "docSettings \<Rightarrow> editor \<Rightarrow> editor" where
  "importSettings s st =
     (let st = (case ds_labelSize s of Some v \<Rightarrow> st\<lparr>ed_labelSize := v\<rparr> | None \<Rightarrow> st);
          st = (case ds_labelColor s of Some v \<Rightarrow> st\<lparr>ed_labelColor := v\<rparr> | None \<Rightarrow> st);
          st = (case ds_showLabelBackground s of
                  Some v \<Rightarrow> st\<lparr>ed_showLabelBackground := v\<rparr> | None \<Rightarrow> st);
          st = (case ds_belts s of Some v \<Rightarrow> st\<lparr>ed_belts := v\<rparr> | None \<Rightarrow> st);
          st = (case ds_stations s of
                  Some v \<Rightarrow> st\<lparr>ed_stations := map importStation v\<rparr> | None \<Rightarrow> st)
      in st)"

definition importJSON :: "document \<Rightarrow> editor \<Rightarrow> editor" where
  "importJSON d st =
     (let st = (case d_seed d of Some s \<Rightarrow> st\<lparr>ed_seed := s\<rparr> | None \<Rightarrow> st);
          st = (case d_planets d of Some ps \<Rightarrow> importPlanets ps st | None \<Rightarrow> st);
          st = (case d_settings d of Some s \<Rightarrow> importSettings s st | None \<Rightarrow> st)
      in st)"


section \<open>What the renderers draw\<close>

text \<open>
  Both renderers are modelled by the geometry of what they draw: a drawing call of the
  canvas renderer, or an element of the markup of the vector renderer, is a \<open>shape\<close>,
  that is a kind, a text (of a label, or the address of an image), the numbers that
  place its path, and the widths of its line. The numbers of the path are, by kind:
  \<^item> \<open>FillRect\<close>, \<open>StrokeRect\<close>, \<open>DrawImage\<close>: x, y, width, height;
  \<^item> \<open>RotatedRect\<close>: x, y, width, height, the rotation in degrees, and its centre;
  \<^item> \<open>FillCircle\<close>, \<open>StrokeCircle\<close>: centre and radius;
  \<^item> \<open>StrokeEllipse\<close>: centre, the two radii, the rotation in degrees about the centre;
  \<^item> \<open>StrokeLine\<close>: the two end points; \<open>StrokePolygon\<close>: the corners;
  \<^item> \<open>FillRoundRect\<close>: x, y, width, height, corner radius; \<open>FillText\<close>: x, y.

  The widths of the line are none for a filled shape, an image and a text, and the line
  width (\<^verbatim>\<open>lineWidth\<close>, \<^verbatim>\<open>stroke-width\<close>) for a stroke. The ellipse has two: the
  thickness of the drawn band where it crosses the first axis of the ellipse and where it
  crosses the second. A stroke of the vector renderer has one width all around. The
  canvas strokes a path under the transformation in force at the call of \<^verbatim>\<open>stroke\<close>,
  so a scaling along one axis thins the band along that axis.

  Paints and opacities are not part of a shape. The canvas transformations
  (\<^verbatim>\<open>translate\<close>, \<^verbatim>\<open>rotate\<close>, \<^verbatim>\<open>scale\<close>) are applied to the coordinates of the
  calls they enclose. The caption in the corner of the canvas is not modelled.
\<close>

datatype kind =
    FillRect | StrokeRect | RotatedRect | DrawImage | FillCircle | StrokeCircle
  | StrokeEllipse | StrokeLine | StrokePolygon | FillRoundRect | FillText

datatype shape = Shape kind string "real list" "real list"

text \<open>The properties that the editor passes to both renderers.\<close>

record props =
  pr_seed :: int
  pr_planets :: "planet list"
  pr_stations :: "station list"
  pr_showMoons :: bool
  pr_globalMoons :: real
  pr_moonMinSize :: real
  pr_moonMaxSize :: real
  pr_moonOrbitMin :: real
  pr_moonOrbitMax :: real
  pr_labelSize :: real
  pr_labelColor :: string
  pr_showLabelBackground :: bool
  pr_labelPosition :: labelPos
  pr_belts :: "beltConfig list"

definition editorProps :: "editor \<Rightarrow> props" where
  "editorProps st =
     \<lparr> pr_seed = ed_seed st, pr_planets = planets st, pr_stations = ed_stations st,
       pr_showMoons = showMoons, pr_globalMoons = 0,
       pr_moonMinSize = moonMinSize, pr_moonMaxSize = moonMaxSize,
       pr_moonOrbitMin = moonOrbitMin, pr_moonOrbitMax = moonOrbitMax,
       pr_labelSize = ed_labelSize st, pr_labelColor = ed_labelColor st,
       pr_showLabelBackground = ed_showLabelBackground st,
       pr_labelPosition = ed_labelPosition st, pr_belts = ed_belts st \<rparr>"

text \<open>Radians to degrees, for the rotations of the canvas.\<close>

definition degrees :: "real \<Rightarrow> real" where
  "degrees r = r * 180 / pi"

text \<open>
  The number that \<^verbatim>\<open>x.toFixed(2)\<close> denotes: the nearest multiple of 1/100, the one of
  larger magnitude of two that are equally near.
\<close>

definition toFixed2 :: "real \<Rightarrow> real" where
  "toFixed2 x =
     (if x < 0 then - (of_int \<lfloor>(- x) * 100 + 1 / 2\<rfloor> / 100)
      else of_int \<lfloor>x * 100 + 1 / 2\<rfloor> / 100)"

text \<open>The number of iterations of \<^verbatim>\<open>for (let m = 0; m < count; m++)\<close>.\<close>

definition iterations :: "real \<Rightarrow> nat" where
  "iterations count = nat \<lceil>count\<rceil>"

text \<open>\<^verbatim>\<open>if (s.customIconDataUrl)\<close>: an absent or empty address is falsy.\<close>

definition customIcon :: "station \<Rightarrow> string option" where
  "customIcon s =
     (case st_customIconDataUrl s of
        Some u \<Rightarrow> (if u \<noteq> [] then Some u else None)
      | None \<Rightarrow> None)"

text \<open>\<^verbatim>\<open>labelPosition.endsWith("left")\<close>.\<close>

definition isLeft :: "labelPos \<Rightarrow> bool" where
  "isLeft pos = (pos = TopLeft \<or> pos = BottomLeft)"

text \<open>The \<^verbatim>\<open>switch (labelPosition)\<close> that both renderers use: the label anchor.\<close>

definition labelAnchor :: "labelPos \<Rightarrow> real \<Rightarrow> real \<Rightarrow> real \<Rightarrow> real \<Rightarrow> real \<times> real" where
  "labelAnchor pos px py offset w =
     (case pos of
        TopLeft \<Rightarrow> (px - offset - w, py - offset)
      | TopRight \<Rightarrow> (px + offset, py - offset)
      | BottomLeft \<Rightarrow> (px - offset - w, py + offset)
      | BottomRight \<Rightarrow> (px + offset, py + offset))"

subsection \<open>The canvas renderer (components/StarCanvas, renderScene)\<close>

text \<open>Stars background: 300 dots, four numbers of the stream for each.\<close>

fun canvas_starfield_loop :: "nat \<Rightarrow> nat \<Rightarrow> real \<Rightarrow> real \<Rightarrow> shape list" where
  "canvas_starfield_loop 0 t width h = []"
| "canvas_starfield_loop (Suc k) t width h =
     (let (a, t1) = mulberry32_call t;
          sx = a * width;
          (b, t2) = mulberry32_call t1;
          sy = b * h;
          (c, t3) = mulberry32_call t2;
          ss = c * 1.5;
          (d, t4) = mulberry32_call t3
      in Shape FillRect [] [sx, sy, ss, ss] [] # canvas_starfield_loop k t4 width h)"

definition canvas_starfield :: "int \<Rightarrow> real \<Rightarrow> real \<Rightarrow> shape list" where
  "canvas_starfield seed width h =
     canvas_starfield_loop 300 (mulberry32 (xor32 seed 0xabcdef)) width h"

text \<open>Star positions by count and seed, and the drawing of a star by type.\<close>

definition starPositions :: "int \<Rightarrow> starType list \<Rightarrow> real \<Rightarrow> real \<Rightarrow> (real \<times> real) list" where
  "starPositions seed stars cx cy =
     (let count = min 3 (max 1 (length stars));
          baseAngle = fst (mulberry32_call (mulberry32 (xor32 seed 0x5151))) * pi * 2;
          radius = 60
      in if count = 1 then [(cx, cy)]
         else if count = 2 then
           [(cx + cos baseAngle * radius, cy + sin baseAngle * radius),
            (cx - cos baseAngle * radius, cy - sin baseAngle * radius)]
         else map (\<lambda>i. let ang = baseAngle + (real i * (pi * 2)) / 3
                        in (cx + cos ang * radius, cy + sin ang * radius)) [0..<3])"

definition drawStar :: "starType \<Rightarrow> real \<Rightarrow> real \<Rightarrow> shape list" where
  "drawStar ty x y =
     (case ty of
        RedDwarf \<Rightarrow> [Shape FillCircle [] [x, y, 90] [], Shape FillCircle [] [x, y, 12] []]
      | BlueGiant \<Rightarrow> [Shape FillCircle [] [x, y, 160] [], Shape FillCircle [] [x, y, 20] []]
      | Neutron \<Rightarrow> [Shape FillCircle [] [x, y, 70] [], Shape FillCircle [] [x, y, 6] [],
                    Shape StrokeCircle [] [x, y, 12] [1]]
      | BlackHole \<Rightarrow> [Shape StrokeCircle [] [x, y, 28] [12], Shape StrokeCircle [] [x, y, 36] [6],
                      Shape FillCircle [] [x, y, 14] []]
      | Yellow \<Rightarrow> [Shape FillCircle [] [x, y, 120] [], Shape FillCircle [] [x, y, 16] []])"

text \<open>\<^verbatim>\<open>stars[i]?.type ?? "yellow"\<close>.\<close>

definition starTypeAt :: "starType list \<Rightarrow> nat \<Rightarrow> starType" where
  "starTypeAt stars i = (if i < length stars then stars ! i else Yellow)"

definition canvas_stars :: "int \<Rightarrow> starType list \<Rightarrow> real \<Rightarrow> real \<Rightarrow> shape list" where
  "canvas_stars seed stars cx cy =
     concat (map (\<lambda>(i, (x, y)). drawStar (starTypeAt stars i) x y)
                 (enumerate 0 (starPositions seed stars cx cy)))"

text \<open>
  Belts. \<open>canvas_beltBounds\<close> is the \<^verbatim>\<open>if\<close> that resolves the inner and the outer
  radius of belt \<open>bi\<close>; \<open>None\<close> is the \<^verbatim>\<open>continue\<close> of an anchored belt one of whose
  planets does not exist.
\<close>

definition canvas_beltBounds ::
  "int \<Rightarrow> planet list \<Rightarrow> nat \<Rightarrow> beltConfig \<Rightarrow> (real \<times> real) option" where
  "canvas_beltBounds seed ps bi belt =
     (case (b_type belt, b_gapIndex belt) of
        (Anchored, Some gi) \<Rightarrow>
          (case (js_nth ps gi, js_nth ps (gi + 1)) of
             (Some a, Some b) \<Rightarrow>
               (let radius = (p_orbitRadius a + p_orbitRadius b) / 2;
                    inner = max 50 (radius - b_width belt / 2);
                    outer = inner + b_width belt
                in Some (inner, outer))
           | _ \<Rightarrow> None)
      | _ \<Rightarrow>
          (let lastOrbit = (if length ps \<noteq> 0 then p_orbitRadius (ps ! (length ps - 1)) else 300);
               minR = 80;
               maxR = max (minR + 60) (lastOrbit + 120);
               rgen = mulberry32 (mixSeed [seed, 0xb17, int bi * 293]);
               radius = minR + fst (mulberry32_call rgen) * (maxR - minR);
               inner = max 50 (radius - b_width belt / 2);
               outer = inner + b_width belt
           in Some (inner, outer)))"

fun canvas_particles_loop ::
  "nat \<Rightarrow> nat \<Rightarrow> real \<Rightarrow> real \<Rightarrow> real \<Rightarrow> real \<Rightarrow> shape list" where
  "canvas_particles_loop 0 t inner outer cx cy = []"
| "canvas_particles_loop (Suc k) t inner outer cx cy =
     (let (a, t1) = mulberry32_call t;
          ang = a * pi * 2;
          (b, t2) = mulberry32_call t1;
          rr = inner + b * (outer - inner);
          px = cx + cos ang * rr;
          py = cy + sin ang * rr;
          (c, t3) = mulberry32_call t2;
          s = 0.5 + c * 1.2
      in Shape FillRect [] [px, py, s, s] [] # canvas_particles_loop k t3 inner outer cx cy)"

definition particleCount :: "beltConfig \<Rightarrow> nat" where
  "particleCount belt = nat \<lfloor>900 * min 1 (max 0 (b_density belt))\<rfloor>"

definition canvas_belt ::
  "int \<Rightarrow> planet list \<Rightarrow> real \<Rightarrow> real \<Rightarrow> nat \<Rightarrow> beltConfig \<Rightarrow> shape list" where
  "canvas_belt seed ps cx cy bi belt =
     (case canvas_beltBounds seed ps bi belt of
        None \<Rightarrow> []
      | Some (inner, outer) \<Rightarrow>
          canvas_particles_loop (particleCount belt)
            (mulberry32 (mixSeed [seed, 0xb17, int bi * 97 + 777])) inner outer cx cy)"

definition canvas_belts :: "props \<Rightarrow> real \<Rightarrow> real \<Rightarrow> shape list" where
  "canvas_belts pr cx cy =
     concat (map (\<lambda>(bi, belt). canvas_belt (pr_seed pr) (pr_planets pr) cx cy bi belt)
                 (enumerate 0 (pr_belts pr)))"

text \<open>Orbits.\<close>

definition canvas_orbits :: "props \<Rightarrow> real \<Rightarrow> real \<Rightarrow> shape list" where
  "canvas_orbits pr cx cy =
     map (\<lambda>p. Shape StrokeCircle [] [cx, cy, p_orbitRadius p] [1]) (pr_planets pr)"

text \<open>
  Planets. The ring is a circle of radius \<^verbatim>\<open>mid\<close>, stroked with the line width
  \<^verbatim>\<open>widthRing\<close> under \<^verbatim>\<open>translate(x, y)\<close>, \<^verbatim>\<open>rotate(angle)\<close> and
  \<^verbatim>\<open>scale(1, flatten)\<close>. The stroke covers the annulus between the radii
  \<^verbatim>\<open>mid - widthRing / 2\<close> and \<^verbatim>\<open>mid + widthRing / 2\<close>, and the transformation maps
  it with the path: the drawing is the band about an ellipse with the centre \<open>(x, y)\<close>
  and the radii \<^verbatim>\<open>mid\<close> and \<^verbatim>\<open>mid * flatten\<close>, rotated by \<^verbatim>\<open>angle\<close>, that is
  \<^verbatim>\<open>widthRing\<close> thick on the first axis and \<^verbatim>\<open>widthRing * flatten\<close> thick on the
  second.
\<close>

definition canvas_ring :: "planet \<Rightarrow> real \<Rightarrow> real \<Rightarrow> shape list" where
  "canvas_ring p x y =
     (case p_rings p of
        None \<Rightarrow> []
      | Some r \<Rightarrow>
          if r_enabled r then
            (let gap = max 0 (r_gap r);
                 widthRing = max 1 (r_width r);
                 inner = p_size p + gap;
                 mid = inner + widthRing / 2;
                 flatten = min 1 (max 0.2 (r_flatten r));
                 ang = (r_angleDeg r * pi) / 180
             in [Shape StrokeEllipse [] [x, y, mid, mid * flatten, degrees ang]
                   [widthRing, widthRing * flatten]])
          else [])"

definition canvas_body :: "planet \<Rightarrow> real \<Rightarrow> real \<Rightarrow> shape list" where
  "canvas_body p x y =
     [Shape FillCircle [] [x, y, p_size p + 1.5] [], Shape FillCircle [] [x, y, p_size p] []]"

text \<open>
  The highlight: the disc of the planet, filled with a radial gradient that starts at
  \<open>(x - size / 3, y - size / 3)\<close> and ends on the outline of the planet.
\<close>

definition canvas_highlight :: "planet \<Rightarrow> real \<Rightarrow> real \<Rightarrow> shape list" where
  "canvas_highlight p x y = [Shape FillCircle [] [x, y, p_size p] []]"

fun canvas_moons_loop ::
  "nat \<Rightarrow> nat \<Rightarrow> props \<Rightarrow> planet \<Rightarrow> real \<Rightarrow> real \<Rightarrow> shape list" where
  "canvas_moons_loop 0 t pr p x y = []"
| "canvas_moons_loop (Suc k) t pr p x y =
     (let (a, t1) = mulberry32_call t;
          ma = a * pi * 2;
          (b, t2) = mulberry32_call t1;
          mOrbit = pr_moonOrbitMin pr + b * max 0 (pr_moonOrbitMax pr - pr_moonOrbitMin pr);
          mx = x + cos ma * (p_size p + mOrbit);
          my = y + sin ma * (p_size p + mOrbit);
          (c, t3) = mulberry32_call t2;
          mSize = pr_moonMinSize pr + c * (pr_moonMaxSize pr - pr_moonMinSize pr)
      in Shape StrokeCircle [] [x, y, p_size p + mOrbit] [0.8]
         # Shape FillCircle [] [mx, my, mSize] []
         # canvas_moons_loop k t3 pr p x y)"

definition canvas_moons :: "props \<Rightarrow> nat \<Rightarrow> planet \<Rightarrow> real \<Rightarrow> real \<Rightarrow> shape list" where
  "canvas_moons pr idx p x y =
     (if pr_showMoons pr \<and> pr_moonMaxSize pr \<ge> pr_moonMinSize pr then
        (let count = (case p_moons p of Some m \<Rightarrow> m | None \<Rightarrow> pr_globalMoons pr)
         in if count > 0 then
              canvas_moons_loop (iterations count)
                (mulberry32 (mixSeed [pr_seed pr, 0xc0ffee, int idx + 1])) pr p x y
            else [])
      else [])"

definition canvas_planet :: "props \<Rightarrow> real \<Rightarrow> real \<Rightarrow> nat \<Rightarrow> planet \<Rightarrow> shape list" where
  "canvas_planet pr cx cy idx p =
     (let x = cx + cos (p_angle p) * p_orbitRadius p;
          y = cy + sin (p_angle p) * p_orbitRadius p
      in canvas_ring p x y @ canvas_body p x y @ canvas_highlight p x y
         @ canvas_moons pr idx p x y)"

definition canvas_planets :: "props \<Rightarrow> real \<Rightarrow> real \<Rightarrow> shape list" where
  "canvas_planets pr cx cy =
     concat (map (\<lambda>(idx, p). canvas_planet pr cx cy idx p) (enumerate 0 (pr_planets pr)))"

text \<open>
  Stations. A custom image is drawn once it is loaded; the model is the drawing of the
  loaded image. The icons are stroked with the line width 1.5.
\<close>

definition canvas_station :: "real \<Rightarrow> real \<Rightarrow> station \<Rightarrow> shape list" where
  "canvas_station cx cy s =
     (let sx = cx + cos (st_angle s) * st_radius s;
          sy = cy + sin (st_angle s) * st_radius s;
          sz = st_size s
      in case customIcon s of
           Some u \<Rightarrow> [Shape DrawImage u [sx - sz, sy - sz, sz * 2, sz * 2] []]
         | None \<Rightarrow>
             (case st_iconType s of
                Diamond \<Rightarrow>
                  [Shape RotatedRect []
                     [sx - sz / 1.2, sy - sz / 1.2, (sz / 1.2) * 2, (sz / 1.2) * 2,
                      degrees (pi / 4), sx, sy] [1.5]]
              | Triangle \<Rightarrow>
                  [Shape StrokePolygon [] [sx + 0, sy - sz, sx + sz, sy + sz, sx - sz, sy + sz] [1.5]]
              | Square \<Rightarrow> [Shape StrokeRect [] [sx - sz, sy - sz, sz * 2, sz * 2] [1.5]]
              | Cross \<Rightarrow>
                  [Shape StrokeLine [] [sx - sz, sy + 0, sx + sz, sy + 0] [1.5],
                   Shape StrokeLine [] [sx + 0, sy - sz, sx + 0, sy + sz] [1.5]]
              | Satellite \<Rightarrow>
                  [Shape FillCircle [] [sx + 0, sy + 0, sz * 0.5] [],
                   Shape StrokeRect [] [sx + sz * 0.7, sy - sz * 0.4, sz * 0.8, sz * 0.8] [1.5],
                   Shape StrokeRect [] [sx - sz * 1.5, sy - sz * 0.4, sz * 0.8, sz * 0.8] [1.5]]))"

definition canvas_stations :: "props \<Rightarrow> real \<Rightarrow> real \<Rightarrow> shape list" where
  "canvas_stations pr cx cy = concat (map (canvas_station cx cy) (pr_stations pr))"

text \<open>
  Labels. \<open>measureText\<close> is \<^verbatim>\<open>ctx.measureText(text).width\<close> in the label font. One
  label is the optional background box, the leader line and the text.

  \<open>background\<close> is the value of \<^verbatim>\<open>showLabelBackground\<close> that \<^verbatim>\<open>renderScene\<close> reads.
  The callback is memoised (\<^verbatim>\<open>useCallback\<close>) and \<^verbatim>\<open>showLabelBackground\<close> is not among
  its dependencies, so the value is the one the property had when the callback was last
  made: at the first render, and after each change of a dependency, the current one.
\<close>

definition canvas_label ::
  "props \<Rightarrow> bool \<Rightarrow> (string \<Rightarrow> real) \<Rightarrow> real \<Rightarrow> real \<Rightarrow> string \<Rightarrow> real \<Rightarrow> shape list" where
  "canvas_label pr background measureText px py text offset =
     (let w = measureText text;
          h = pr_labelSize pr;
          (lx, ly) = labelAnchor (pr_labelPosition pr) px py offset w
      in (if background
          then [Shape FillRoundRect [] [lx - 2, ly - h / 2 - 2, w + 4, h + 4, 4] []] else [])
         @ [Shape StrokeLine []
              [px, py, if isLeft (pr_labelPosition pr) then lx + w else lx, ly] [1],
            Shape FillText text [lx, ly] []])"

definition canvas_planetLabel ::
  "props \<Rightarrow> bool \<Rightarrow> (string \<Rightarrow> real) \<Rightarrow> real \<Rightarrow> real \<Rightarrow> planet \<Rightarrow> shape list" where
  "canvas_planetLabel pr background measureText cx cy p =
     (if p_showLabel p = Some False then []
      else canvas_label pr background measureText
             (cx + cos (p_angle p) * p_orbitRadius p) (cy + sin (p_angle p) * p_orbitRadius p)
             (p_name p) (p_size p + 10))"

definition canvas_stationLabel ::
  "props \<Rightarrow> bool \<Rightarrow> (string \<Rightarrow> real) \<Rightarrow> real \<Rightarrow> real \<Rightarrow> station \<Rightarrow> shape list" where
  "canvas_stationLabel pr background measureText cx cy s =
     (if st_showLabel s = Some False then []
      else canvas_label pr background measureText
             (cx + cos (st_angle s) * st_radius s) (cy + sin (st_angle s) * st_radius s)
             (case st_name s of Some n \<Rightarrow> n | None \<Rightarrow> ''Station'') (st_size s + 10))"

definition canvas_labels ::
  "props \<Rightarrow> bool \<Rightarrow> (string \<Rightarrow> real) \<Rightarrow> real \<Rightarrow> real \<Rightarrow> shape list" where
  "canvas_labels pr background measureText cx cy =
     concat (map (canvas_planetLabel pr background measureText cx cy) (pr_planets pr))
     @ concat (map (canvas_stationLabel pr background measureText cx cy) (pr_stations pr))"


text \<open>The whole drawing, in the order of the calls.\<close>

definition canvas_renderScene ::
  "props \<Rightarrow> bool \<Rightarrow> starType list \<Rightarrow> (string \<Rightarrow> real) \<Rightarrow> real \<Rightarrow> real \<Rightarrow> shape list" where
  "canvas_renderScene pr background stars measureText width h =
     (let cx = width / 2; cy = h / 2
      in [Shape FillRect [] [0, 0, width, h] []]
         @ canvas_starfield (pr_seed pr) width h
         @ canvas_stars (pr_seed pr) stars cx cy
         @ canvas_belts pr cx cy
         @ canvas_orbits pr cx cy
         @ canvas_planets pr cx cy
         @ canvas_stations pr cx cy
         @ canvas_labels pr background measureText cx cy)"

subsection \<open>The vector renderer (components/StarSvg)\<close>

text \<open>
  A shape of the vector renderer holds the numbers that the markup denotes: where the
  source formats a number with \<^verbatim>\<open>toFixed(2)\<close> the shape has the rounded number.
\<close>

text \<open>
  \<^verbatim>\<open>moonData\<close>: the moons of all planets, each with the index of its planet, computed
  with the centre \<open>(cx, cy)\<close>.
\<close>

record svgMoon =
  sm_x :: real
  sm_y :: real
  sm_size :: real
  sm_parentIndex :: nat
  sm_orbitRadius :: real

fun svg_moons_loop ::
  "nat \<Rightarrow> nat \<Rightarrow> props \<Rightarrow> planet \<Rightarrow> nat \<Rightarrow> real \<Rightarrow> real \<Rightarrow> svgMoon list" where
  "svg_moons_loop 0 t pr p idx px py = []"
| "svg_moons_loop (Suc k) t pr p idx px py =
     (let (a, t1) = mulberry32_call t;
          ma = a * pi * 2;
          (b, t2) = mulberry32_call t1;
          mOrbit = pr_moonOrbitMin pr + b * max 0 (pr_moonOrbitMax pr - pr_moonOrbitMin pr);
          mx = px + cos ma * (p_size p + mOrbit);
          my = py + sin ma * (p_size p + mOrbit);
          (c, t3) = mulberry32_call t2;
          mSize = pr_moonMinSize pr + c * (pr_moonMaxSize pr - pr_moonMinSize pr)
      in \<lparr> sm_x = mx, sm_y = my, sm_size = mSize, sm_parentIndex = idx,
           sm_orbitRadius = p_size p + mOrbit \<rparr>
         # svg_moons_loop k t3 pr p idx px py)"

definition svg_planetMoons :: "props \<Rightarrow> real \<Rightarrow> real \<Rightarrow> nat \<Rightarrow> planet \<Rightarrow> svgMoon list" where
  "svg_planetMoons pr cx cy idx p =
     (let count = (if pr_showMoons pr \<and> pr_moonMaxSize pr \<ge> pr_moonMinSize pr
                   then (case p_moons p of Some m \<Rightarrow> m | None \<Rightarrow> pr_globalMoons pr)
                   else 0)
      in if count > 0 then
           (let rgen = mulberry32 (mixSeed [pr_seed pr, 0xc0ffee, int idx + 1]);
                px = cx + cos (p_angle p) * p_orbitRadius p;
                py = cy + sin (p_angle p) * p_orbitRadius p
            in svg_moons_loop (iterations count) rgen pr p idx px py)
         else [])"

definition moonData :: "props \<Rightarrow> real \<Rightarrow> real \<Rightarrow> svgMoon list" where
  "moonData pr cx cy =
     concat (map (\<lambda>(idx, p). svg_planetMoons pr cx cy idx p) (enumerate 0 (pr_planets pr)))"

text \<open>
  \<^verbatim>\<open>beltsData\<close>: for each belt its particles \<open>(x, y, s)\<close>, computed with the centre
  \<open>(cx, cy)\<close>; an anchored belt one of whose planets does not exist has none.
\<close>

definition svg_beltBounds ::
  "int \<Rightarrow> planet list \<Rightarrow> nat \<Rightarrow> beltConfig \<Rightarrow> (real \<times> real) option" where
  "svg_beltBounds seed ps bi belt =
     (case (b_type belt, b_gapIndex belt) of
        (Anchored, Some gi) \<Rightarrow>
          (case (js_nth ps gi, js_nth ps (gi + 1)) of
             (Some a, Some b) \<Rightarrow>
               (let radius = (p_orbitRadius a + p_orbitRadius b) / 2;
                    inner = max 50 (radius - b_width belt / 2);
                    outer = inner + b_width belt
                in Some (inner, outer))
           | _ \<Rightarrow> None)
      | _ \<Rightarrow>
          (let lastOrbit = (if length ps \<noteq> 0 then p_orbitRadius (ps ! (length ps - 1)) else 300);
               minR = 80;
               maxR = max (minR + 60) (lastOrbit + 120);
               rgen2 = mulberry32 (mixSeed [seed, 0xb17, int bi * 293]);
               radius = minR + fst (mulberry32_call rgen2) * (maxR - minR);
               inner = max 50 (radius - b_width belt / 2);
               outer = inner + b_width belt
           in Some (inner, outer)))"

fun svg_particles_loop ::
  "nat \<Rightarrow> nat \<Rightarrow> real \<Rightarrow> real \<Rightarrow> real \<Rightarrow> real \<Rightarrow> (real \<times> real \<times> real) list" where
  "svg_particles_loop 0 t inner outer cx cy = []"
| "svg_particles_loop (Suc k) t inner outer cx cy =
     (let (a, t1) = mulberry32_call t;
          ang = a * pi * 2;
          (b, t2) = mulberry32_call t1;
          rr = inner + b * (outer - inner);
          px = cx + cos ang * rr;
          py = cy + sin ang * rr;
          (c, t3) = mulberry32_call t2;
          s = 0.5 + c * 1.2
      in (px, py, s) # svg_particles_loop k t3 inner outer cx cy)"

definition svg_beltParticles ::
  "int \<Rightarrow> planet list \<Rightarrow> real \<Rightarrow> real \<Rightarrow> nat \<Rightarrow> beltConfig \<Rightarrow> (real \<times> real \<times> real) list" where
  "svg_beltParticles seed ps cx cy bi belt =
     (case svg_beltBounds seed ps bi belt of
        None \<Rightarrow> []
      | Some (inner, outer) \<Rightarrow>
          svg_particles_loop (particleCount belt)
            (mulberry32 (mixSeed [seed, 0xb17, int bi * 97 + 777])) inner outer cx cy)"

definition beltsData :: "props \<Rightarrow> real \<Rightarrow> real \<Rightarrow> (real \<times> real \<times> real) list list" where
  "beltsData pr cx cy =
     map (\<lambda>(bi, belt). svg_beltParticles (pr_seed pr) (pr_planets pr) cx cy bi belt)
         (enumerate 0 (pr_belts pr))"

text \<open>The markup of the belts, from the \<^verbatim>\<open>beltsData\<close> computed with the centre \<open>(cx, cy)\<close>.\<close>

definition svg_belts :: "props \<Rightarrow> real \<Rightarrow> real \<Rightarrow> shape list" where
  "svg_belts pr cx cy =
     concat (map (map (\<lambda>(x, y, s).
                    Shape FillRect [] [toFixed2 x, toFixed2 y, toFixed2 s, toFixed2 s] []))
                 (beltsData pr cx cy))"

text \<open>
  \<^verbatim>\<open>labelData\<close>: the anchor, text, estimated width, height and centre of each label,
  planets first. The width of a text is estimated from its length.
\<close>

record svgLabel =
  sl_x :: real
  sl_y :: real
  sl_text :: string
  sl_w :: real
  sl_h :: real
  sl_fromX :: real
  sl_fromY :: real
  sl_isLeft :: bool

definition measure_svg :: "props \<Rightarrow> string \<Rightarrow> real" where
  "measure_svg pr text = real (length text) * (pr_labelSize pr * 0.6)"

definition svg_label :: "props \<Rightarrow> real \<Rightarrow> real \<Rightarrow> string \<Rightarrow> real \<Rightarrow> svgLabel" where
  "svg_label pr px py text offset =
     (let w = measure_svg pr text;
          h = pr_labelSize pr;
          (lx, ly) = labelAnchor (pr_labelPosition pr) px py offset w
      in \<lparr> sl_x = lx, sl_y = ly, sl_text = text, sl_w = w, sl_h = h,
           sl_fromX = px, sl_fromY = py, sl_isLeft = isLeft (pr_labelPosition pr) \<rparr>)"

definition svg_planetLabel :: "props \<Rightarrow> real \<Rightarrow> real \<Rightarrow> planet \<Rightarrow> svgLabel list" where
  "svg_planetLabel pr cx cy p =
     (if p_showLabel p = Some False then []
      else [svg_label pr
              (cx + cos (p_angle p) * p_orbitRadius p) (cy + sin (p_angle p) * p_orbitRadius p)
              (p_name p) (p_size p + 10)])"

definition svg_stationLabel :: "props \<Rightarrow> real \<Rightarrow> real \<Rightarrow> station \<Rightarrow> svgLabel list" where
  "svg_stationLabel pr cx cy s =
     (if st_showLabel s = Some False then []
      else [svg_label pr
              (cx + cos (st_angle s) * st_radius s) (cy + sin (st_angle s) * st_radius s)
              (case st_name s of Some n \<Rightarrow> n | None \<Rightarrow> ''Station'') (st_size s + 10)])"

definition labelData :: "props \<Rightarrow> real \<Rightarrow> real \<Rightarrow> svgLabel list" where
  "labelData pr cx cy =
     concat (map (svg_planetLabel pr cx cy) (pr_planets pr))
     @ concat (map (svg_stationLabel pr cx cy) (pr_stations pr))"

definition svg_labelMarkup :: "props \<Rightarrow> svgLabel \<Rightarrow> shape list" where
  "svg_labelMarkup pr l =
     (let bg = (if pr_showLabelBackground pr
                then [Shape FillRoundRect []
                        [toFixed2 (sl_x l - 2), toFixed2 (sl_y l - sl_h l / 2 - 2),
                         toFixed2 (sl_w l + 4), toFixed2 (sl_h l + 4), 4] []]
                else []);
          lineX = (if sl_isLeft l then sl_x l + sl_w l else sl_x l)
      in bg @ [Shape StrokeLine []
                 [toFixed2 (sl_fromX l), toFixed2 (sl_fromY l), toFixed2 lineX, toFixed2 (sl_y l)] [1],
               Shape FillText (sl_text l) [toFixed2 (sl_x l), toFixed2 (sl_y l)] []])"

definition svg_labels :: "props \<Rightarrow> real \<Rightarrow> real \<Rightarrow> shape list" where
  "svg_labels pr cx cy = concat (map (svg_labelMarkup pr) (labelData pr cx cy))"

text \<open>
  The markup: stars background, orbits, planets with rings and moons, stations. The ring
  is an ellipse with the stroke width \<^verbatim>\<open>widthRing\<close>, rotated about its centre: its band
  has this thickness all around. The panels of the satellite icon have the stroke width
  1.2, the other icons 1.5.
\<close>

fun svg_starfield_loop :: "nat \<Rightarrow> nat \<Rightarrow> real \<Rightarrow> real \<Rightarrow> shape list" where
  "svg_starfield_loop 0 t width height = []"
| "svg_starfield_loop (Suc k) t width height =
     (let (a, t1) = mulberry32_call t;
          sx = a * width;
          (b, t2) = mulberry32_call t1;
          sy = b * height;
          (c, t3) = mulberry32_call t2;
          ss = c * 1.5;
          (d, t4) = mulberry32_call t3
      in Shape FillRect [] [toFixed2 sx, toFixed2 sy, toFixed2 ss, toFixed2 ss] []
         # svg_starfield_loop k t4 width height)"

definition svg_starfield :: "int \<Rightarrow> real \<Rightarrow> real \<Rightarrow> shape list" where
  "svg_starfield seed width height =
     svg_starfield_loop 300 (mulberry32 (xor32 seed 0xabcdef)) width height"

definition svg_orbits :: "props \<Rightarrow> real \<Rightarrow> real \<Rightarrow> shape list" where
  "svg_orbits pr cx cy =
     map (\<lambda>p. Shape StrokeCircle [] [cx, cy, p_orbitRadius p] [1]) (pr_planets pr)"

definition svg_ring :: "planet \<Rightarrow> real \<Rightarrow> real \<Rightarrow> shape list" where
  "svg_ring p x y =
     (case p_rings p of
        None \<Rightarrow> []
      | Some r \<Rightarrow>
          if r_enabled r then
            (let gap = max 0 (r_gap r);
                 widthRing = max 1 (r_width r);
                 inner = p_size p + gap;
                 mid = inner + widthRing / 2;
                 flatten = min 1 (max 0.2 (r_flatten r));
                 ang = (r_angleDeg r * pi) / 180
             in [Shape StrokeEllipse []
                   [x, y, mid, mid * flatten, toFixed2 (ang * 180 / pi)]
                   [widthRing, widthRing]])
          else [])"

definition svg_body :: "planet \<Rightarrow> real \<Rightarrow> real \<Rightarrow> shape list" where
  "svg_body p x y =
     [Shape FillCircle [] [x, y, p_size p + 1.5] [], Shape FillCircle [] [x, y, p_size p] []]"

text \<open>The highlight: a disc of half the radius of the planet, off its centre.\<close>

definition svg_highlight :: "planet \<Rightarrow> real \<Rightarrow> real \<Rightarrow> shape list" where
  "svg_highlight p x y =
     [Shape FillCircle [] [x - p_size p / 3, y - p_size p / 3, p_size p / 2] []]"

text \<open>
  \<^verbatim>\<open>moonData\<close> and \<^verbatim>\<open>beltsData\<close> are memoised (\<^verbatim>\<open>useMemo\<close>): they are computed
  anew at a render before which one of their dependencies has changed, and kept
  otherwise. The dependencies are the properties that they read, and not the centre. So
  the list in use at a render is the one computed from the current properties with the
  centre of the render that last computed it: \<open>(mx, my)\<close> for the moons and
  \<open>(bx, by)\<close> for the belts. This is the current centre, unless the size of the
  drawing has changed since.

  The moons of planet \<open>idx\<close>, which is drawn at \<open>(x, y)\<close>: the orbit of a moon is
  drawn about \<open>(x, y)\<close>, the moon where \<^verbatim>\<open>moonData\<close> has it.
\<close>

definition svg_moons :: "props \<Rightarrow> real \<Rightarrow> real \<Rightarrow> nat \<Rightarrow> real \<Rightarrow> real \<Rightarrow> shape list" where
  "svg_moons pr mx my idx x y =
     concat (map (\<lambda>m. [Shape StrokeCircle [] [x, y, sm_orbitRadius m] [0.8],
                         Shape FillCircle [] [sm_x m, sm_y m, sm_size m] []])
                 (filter (\<lambda>m. sm_parentIndex m = idx) (moonData pr mx my)))"

definition svg_planet ::
  "props \<Rightarrow> real \<Rightarrow> real \<Rightarrow> real \<Rightarrow> real \<Rightarrow> nat \<Rightarrow> planet \<Rightarrow> shape list" where
  "svg_planet pr cx cy mx my idx p =
     (let x = cx + cos (p_angle p) * p_orbitRadius p;
          y = cy + sin (p_angle p) * p_orbitRadius p
      in svg_ring p x y @ svg_body p x y @ svg_highlight p x y @ svg_moons pr mx my idx x y)"

definition svg_planets :: "props \<Rightarrow> real \<Rightarrow> real \<Rightarrow> real \<Rightarrow> real \<Rightarrow> shape list" where
  "svg_planets pr cx cy mx my =
     concat (map (\<lambda>(idx, p). svg_planet pr cx cy mx my idx p) (enumerate 0 (pr_planets pr)))"

definition svg_station :: "real \<Rightarrow> real \<Rightarrow> station \<Rightarrow> shape list" where
  "svg_station cx cy s =
     (let sx = cx + cos (st_angle s) * st_radius s;
          sy = cy + sin (st_angle s) * st_radius s;
          sz = st_size s
      in case customIcon s of
           Some u \<Rightarrow>
             [Shape DrawImage u
                [toFixed2 (sx - sz), toFixed2 (sy - sz), toFixed2 (sz * 2), toFixed2 (sz * 2)] []]
         | None \<Rightarrow>
             (case st_iconType s of
                Diamond \<Rightarrow>
                  [Shape RotatedRect []
                     [toFixed2 (sx - sz / 1.2), toFixed2 (sy - sz / 1.2),
                      toFixed2 (sz / 1.2 * 2), toFixed2 (sz / 1.2 * 2),
                      45, toFixed2 sx, toFixed2 sy] [1.5]]
              | Triangle \<Rightarrow>
                  [Shape StrokePolygon []
                     [sx, toFixed2 (sy - sz), toFixed2 (sx + sz), toFixed2 (sy + sz),
                      toFixed2 (sx - sz), toFixed2 (sy + sz)] [1.5]]
              | Square \<Rightarrow>
                  [Shape StrokeRect []
                     [toFixed2 (sx - sz), toFixed2 (sy - sz), toFixed2 (sz * 2), toFixed2 (sz * 2)] [1.5]]
              | Cross \<Rightarrow>
                  [Shape StrokeLine []
                     [toFixed2 (sx - sz), toFixed2 sy, toFixed2 (sx + sz), toFixed2 sy] [1.5],
                   Shape StrokeLine []
                     [toFixed2 sx, toFixed2 (sy - sz), toFixed2 sx, toFixed2 (sy + sz)] [1.5]]
              | Satellite \<Rightarrow>
                  [Shape FillCircle [] [toFixed2 sx, toFixed2 sy, toFixed2 (sz * 0.5)] [],
                   Shape StrokeRect []
                     [toFixed2 (sx + sz * 0.7), toFixed2 (sy - sz * 0.4),
                      toFixed2 (sz * 0.8), toFixed2 (sz * 0.8)] [1.2],
                   Shape StrokeRect []
                     [toFixed2 (sx - sz * 1.5), toFixed2 (sy - sz * 0.4),
                      toFixed2 (sz * 0.8), toFixed2 (sz * 0.8)] [1.2]]))"

definition svg_stations :: "props \<Rightarrow> real \<Rightarrow> real \<Rightarrow> shape list" where
  "svg_stations pr cx cy = concat (map (svg_station cx cy) (pr_stations pr))"

text \<open>The star of the markup: the glow and the core disc at the centre.\<close>

definition svg_star :: "real \<Rightarrow> real \<Rightarrow> shape list" where
  "svg_star cx cy = [Shape FillCircle [] [cx, cy, 120] [], Shape FillCircle [] [cx, cy, 16] []]"

text \<open>
  The markup of a render of the size \<open>width\<close> by \<open>height\<close>, with the moons computed
  for the centre \<open>(mx, my)\<close> and the belts for the centre \<open>(bx, by)\<close>.
\<close>

definition svg_markup ::
  "props \<Rightarrow> real \<Rightarrow> real \<Rightarrow> real \<Rightarrow> real \<Rightarrow> real \<Rightarrow> real \<Rightarrow> shape list" where
  "svg_markup pr width height mx my bx by =
     (let cx = width / 2; cy = height / 2
      in [Shape FillRect [] [0, 0, width, height] []]
         @ svg_starfield (pr_seed pr) width height
         @ svg_star cx cy
         @ svg_orbits pr cx cy
         @ svg_planets pr cx cy mx my
         @ svg_belts pr bx by
         @ svg_stations pr cx cy
         @ svg_labels pr cx cy)"

text \<open>
  Two shapes have outlines near each other when they have the same kind and text and
  each number of the path of one is within half a hundredth of the corresponding number
  of the other: the paths are the same up to the two decimals that the markup keeps.
  Two shapes are near each other when, moreover, their lines have the same widths.
\<close>

definition near :: "real \<Rightarrow> real \<Rightarrow> bool" where
  "near a b = (\<bar>a - b\<bar> \<le> 1 / 200)"

fun nearOutline :: "shape \<Rightarrow> shape \<Rightarrow> bool" where
  "nearOutline (Shape k s xs ws) (Shape k' s' xs' ws') =
     (k = k' \<and> s = s' \<and> list_all2 near xs xs')"

fun nearShape :: "shape \<Rightarrow> shape \<Rightarrow> bool" where
  "nearShape (Shape k s xs ws) (Shape k' s' xs' ws') =
     (k = k' \<and> s = s' \<and> list_all2 near xs xs' \<and> ws = ws')"




text \<open>A planet on the orbit of radius \<open>r\<close>, for the examples.\<close>

definition examplePlanet :: "real \<Rightarrow> planet" where
  "examplePlanet r =
     \<lparr> p_orbitRadius = r, p_size = 6, p_angle = 0, p_color = ''#8AB4F8'', p_name = ''Zeta I'',
       p_moons = None, p_showLabel = None, p_rings = None \<rparr>"





definition stationLabelShown :: "station \<Rightarrow> station" where
  "stationLabelShown s = s\<lparr>st_showLabel := Some (st_showLabel s \<noteq> Some False)\<rparr>"



section \<open>Properties of the streams\<close>


lemma unat_u32_less: "real (unat (w :: u32)) < 4294967296"
proof -
  have "unat w < 2 ^ 32" using unsigned_less [of w, where ?'a = nat] by simp
  then have "unat w < 4294967296" by simp
  then show ?thesis by linarith
qed

lemma mulberry32_call_word:
  "\<exists>w :: u32. fst (mulberry32_call t) = real (unat w) / 4294967296"
  unfolding mulberry32_call_def Let_def fst_conv by (rule exI) (rule refl)

lemma mulberry32_call_range: "0 \<le> fst (mulberry32_call t) \<and> fst (mulberry32_call t) < 1"
proof -
  obtain w :: u32 where "fst (mulberry32_call t) = real (unat w) / 4294967296"
    using mulberry32_call_word by blast
  moreover have "0 \<le> real (unat w) / 4294967296"
    by (rule divide_nonneg_nonneg) (rule of_nat_0_le_iff, simp)
  moreover have "real (unat w) / 4294967296 < 1" using unat_u32_less [of w] by simp
  ultimately show ?thesis by (simp only:)
qed

lemma draws_range: "v \<in> set (draws k t) \<Longrightarrow> 0 \<le> v \<and> v < 1"
proof (induction k arbitrary: t)
  case 0
  then show ?case by simp
next
  case (Suc k)
  obtain a t' where c: "mulberry32_call t = (a, t')" by (cases "mulberry32_call t")
  with Suc.prems have "v = a \<or> v \<in> set (draws k t')" by simp
  moreover have "0 \<le> a \<and> a < 1" using mulberry32_call_range [of t] c by simp
  ultimately show ?case using Suc.IH by blast
qed

lemma word_of_int_cong32:
  "s mod 2 ^ 32 = s' mod 2 ^ 32 \<Longrightarrow> (word_of_int s :: u32) = word_of_int s'"
  by (simp add: word_of_int_eq_iff take_bit_eq_mod)

lemma mulberry32_cong: "s mod 2 ^ 32 = s' mod 2 ^ 32 \<Longrightarrow> mulberry32 s = mulberry32 s'"
  unfolding mulberry32_def using word_of_int_cong32 [of s s'] by simp

lemma length_draws: "length (draws k t) = k"
  by (induction k arbitrary: t) (simp_all add: split_def Let_def)

lemma loop_bounds:
  "p \<in> set (basePlanets_loop seed k i t cur) \<Longrightarrow> cur + 35 \<le> p_orbitRadius p"
proof (induction k arbitrary: i t cur)
  case 0
  then show ?case by simp
next
  case (Suc k)
  obtain g t1 where c1: "mulberry32_call t = (g, t1)" by (cases "mulberry32_call t")
  have g: "0 \<le> g" using mulberry32_call_range [of t] c1 by simp
  from Suc.prems c1 have "p_orbitRadius p = cur + (35 + g * (70 - 35)) \<or>
     (\<exists>t4. p \<in> set (basePlanets_loop seed k (Suc i) t4 (cur + (35 + g * (70 - 35)))))"
    by (auto simp: Let_def split_def)
  then show ?case
  proof
    assume "p_orbitRadius p = cur + (35 + g * (70 - 35))"
    with g show ?thesis by simp
  next
    assume "\<exists>t4. p \<in> set (basePlanets_loop seed k (Suc i) t4 (cur + (35 + g * (70 - 35))))"
    then obtain t4 where "p \<in> set (basePlanets_loop seed k (Suc i) t4 (cur + (35 + g * (70 - 35))))" ..
    from Suc.IH [OF this] g show ?thesis by simp
  qed
qed

lemma loop_sorted:
  "sorted_wrt (<) (map p_orbitRadius (basePlanets_loop seed k i t cur))"
proof (induction k arbitrary: i t cur)
  case 0
  then show ?case by simp
next
  case (Suc k)
  obtain g t1 where c1: "mulberry32_call t = (g, t1)" by (cases "mulberry32_call t")
  have g: "0 \<le> g" using mulberry32_call_range [of t] c1 by simp
  show ?case
    using Suc.IH loop_bounds g c1
    by (fastforce simp: Let_def split_def)
qed

lemma length_loop: "length (basePlanets_loop seed k i t cur) = k"
  by (induction k arbitrary: i t cur) (simp_all add: split_def Let_def)

lemma loop_first:
  "p_orbitRadius (basePlanets_loop seed (Suc k) i t cur ! 0) = cur + (35 + fst (mulberry32_call t) * 35)"
  by (simp add: split_def Let_def)



section \<open>Properties of the planet list and of the overrides\<close>

lemma nth_loop_moons:
  "j < k \<Longrightarrow> p_moons (basePlanets_loop seed k i t cur ! j) = Some (moonsGen seed (i + j))"
proof (induction k arbitrary: i t cur j)
  case 0
  then show ?case by simp
next
  case (Suc k)
  show ?case
  proof (cases j)
    case 0
    then show ?thesis by (simp add: split_def Let_def)
  next
    case (Suc j')
    with Suc.prems have "j' < k" by simp
    from Suc.IH [OF this] Suc show ?thesis by (simp add: split_def Let_def)
  qed
qed

lemma nth_loop_rings:
  "j < k \<Longrightarrow> p_rings (basePlanets_loop seed k i t cur ! j) = ringsGen seed (i + j)"
proof (induction k arbitrary: i t cur j)
  case 0
  then show ?case by simp
next
  case (Suc k)
  show ?case
  proof (cases j)
    case 0
    then show ?thesis by (simp add: split_def Let_def)
  next
    case (Suc j')
    with Suc.prems have "j' < k" by simp
    from Suc.IH [OF this] Suc show ?thesis by (simp add: split_def Let_def)
  qed
qed

lemma basePlanets_moons:
  "i < n \<Longrightarrow> p_moons (basePlanets seed n ! i) = Some (moonsGen seed i)"
  using nth_loop_moons [of i n seed 0] by (simp add: basePlanets_def)

lemma basePlanets_rings:
  "i < n \<Longrightarrow> p_rings (basePlanets seed n ! i) = ringsGen seed i"
  using nth_loop_rings [of i n seed 0] by (simp add: basePlanets_def)

lemma length_basePlanets: "length (basePlanets seed n) = n"
  by (simp add: basePlanets_def length_loop)

lemma length_ed_basePlanets: "length (ed_basePlanets st) = ed_numPlanets st"
  by (simp add: ed_basePlanets_def length_basePlanets)

lemma length_planets: "length (planets st) = ed_numPlanets st"
  by (simp add: planets_def length_ed_basePlanets)

lemma nth_planets:
  "i < ed_numPlanets st \<Longrightarrow> planets st ! i = composePlanet st i (ed_basePlanets st ! i)"
  by (simp add: planets_def length_ed_basePlanets nth_enumerate_eq)

lemma planets_orbits: "map p_orbitRadius (planets st) = map p_orbitRadius (ed_basePlanets st)"
  by (rule nth_equalityI) (simp_all add: length_planets length_ed_basePlanets nth_planets composePlanet_def)

lemma js_set_nth_other:
  "j \<noteq> i \<Longrightarrow> (if j < length (js_set xs i v) then js_set xs i v ! j else None)
     = (if j < length xs then xs ! j else None)"
  by (auto simp: js_set_def nth_append nth_Cons')

lemma js_set_nth_same:
  "(if i < length (js_set xs i v) then js_set xs i v ! i else None) = Some v"
  by (auto simp: js_set_def nth_append)

lemma planet_moons_composed:
  "i < ed_numPlanets st \<Longrightarrow> p_moons (planets st ! i) = overrideField st i pm_moons"
  by (simp add: nth_planets composePlanet_def)


lemma onPlanetChange_overrides:
  "ed_planetOverrides (onPlanetChange i upd st) =
     js_set (ed_planetOverrides st) i
       (spreadModel (case overrideAt st i of Some m \<Rightarrow> m | None \<Rightarrow> emptyModel) upd)"
  by (cases "pm_name upd") (simp_all add: onPlanetChange_def Let_def)

lemma overrideAt_onPlanetChange_other:
  "j \<noteq> i \<Longrightarrow> overrideAt (onPlanetChange i upd st) j = overrideAt st j"
  unfolding overrideAt_def onPlanetChange_overrides by (rule js_set_nth_other)

lemma overrideAt_onPlanetChange_same:
  "overrideAt (onPlanetChange i upd st) i =
     Some (spreadModel (case overrideAt st i of Some m \<Rightarrow> m | None \<Rightarrow> emptyModel) upd)"
  unfolding onPlanetChange_overrides overrideAt_def [of "onPlanetChange i upd st"]
  by (rule js_set_nth_same)

lemma onPlanetChange_seed: "ed_seed (onPlanetChange i upd st) = ed_seed st"
  by (cases "pm_name upd") (simp_all add: onPlanetChange_def Let_def)

lemma onPlanetChange_numPlanets: "ed_numPlanets (onPlanetChange i upd st) = ed_numPlanets st"
  by (cases "pm_name upd") (simp_all add: onPlanetChange_def Let_def)

lemma onPlanetChange_belts: "ed_belts (onPlanetChange i upd st) = ed_belts st"
  by (cases "pm_name upd") (simp_all add: onPlanetChange_def Let_def)

lemma onPlanetChange_stations: "ed_stations (onPlanetChange i upd st) = ed_stations st"
  by (cases "pm_name upd") (simp_all add: onPlanetChange_def Let_def)

lemma onPlanetChange_names_other:
  "j \<noteq> i \<Longrightarrow> ed_customNames (onPlanetChange i upd st) j = ed_customNames st j"
  by (cases "pm_name upd") (simp_all add: onPlanetChange_def Let_def)

lemma onPlanetChange_basePlanets: "ed_basePlanets (onPlanetChange i upd st) = ed_basePlanets st"
  by (simp add: ed_basePlanets_def onPlanetChange_seed onPlanetChange_numPlanets)

lemma onPlanetChange_defaultNames: "ed_defaultNames (onPlanetChange i upd st) = ed_defaultNames st"
  by (simp add: ed_defaultNames_def onPlanetChange_seed onPlanetChange_numPlanets)

lemma overrideField_onPlanetChange_other:
  "j \<noteq> i \<Longrightarrow> overrideField (onPlanetChange i upd st) j f = overrideField st j f"
  by (simp add: overrideField_def overrideAt_onPlanetChange_other)

lemma getPlanetName_onPlanetChange_other:
  assumes "j \<noteq> i"
  shows "getPlanetName (onPlanetChange i upd st) j = getPlanetName st j"
  unfolding getPlanetName_def
  by (simp only: overrideField_onPlanetChange_other [OF assms] onPlanetChange_defaultNames
      onPlanetChange_names_other [OF assms])

lemma composePlanet_onPlanetChange_other:
  assumes "j \<noteq> i"
  shows "composePlanet (onPlanetChange i upd st) j src = composePlanet st j src"
  unfolding composePlanet_def
  by (simp only: overrideField_onPlanetChange_other [OF assms]
      getPlanetName_onPlanetChange_other [OF assms])

lemma js_nth_orbit:
  assumes "map p_orbitRadius ps = map p_orbitRadius ps'"
  shows "map_option p_orbitRadius (js_nth ps g) = map_option p_orbitRadius (js_nth ps' g)"
proof -
  have l: "length ps = length ps'" using assms map_eq_imp_length_eq by blast
  have "i < length ps \<Longrightarrow> p_orbitRadius (ps ! i) = p_orbitRadius (ps' ! i)" for i
    using assms l by (metis nth_map)
  then show ?thesis using l by (auto simp: js_nth_def)
qed

lemma beltBounds_orbits:
  assumes m: "map p_orbitRadius ps = map p_orbitRadius ps'"
  shows "canvas_beltBounds seed ps bi belt = canvas_beltBounds seed ps' bi belt"
proof -
  have l: "length ps = length ps'" using m map_eq_imp_length_eq by blast
  have n: "i < length ps \<Longrightarrow> p_orbitRadius (ps ! i) = p_orbitRadius (ps' ! i)" for i
    using m l by (metis nth_map)
  have last: "(if length ps \<noteq> 0 then p_orbitRadius (ps ! (length ps - 1)) else 300)
      = (if length ps' \<noteq> 0 then p_orbitRadius (ps' ! (length ps' - 1)) else 300)"
    using l n [of "length ps - 1"] by auto
  show ?thesis
  proof (cases "b_type belt")
    case Free
    show ?thesis
      unfolding canvas_beltBounds_def Free by (simp only: last prod.case beltType.case)
  next
    case Anchored
    show ?thesis
    proof (cases "b_gapIndex belt")
      case None
      show ?thesis
        unfolding canvas_beltBounds_def Anchored None
        by (simp only: last prod.case beltType.case option.case)
    next
      case (Some gi)
      have a: "map_option p_orbitRadius (js_nth ps gi) = map_option p_orbitRadius (js_nth ps' gi)"
        by (rule js_nth_orbit [OF m])
      have b: "map_option p_orbitRadius (js_nth ps (gi + 1)) = map_option p_orbitRadius (js_nth ps' (gi + 1))"
        by (rule js_nth_orbit [OF m])
      have "canvas_beltBounds seed ps bi belt =
          (case (js_nth ps gi, js_nth ps (gi + 1)) of
             (Some a, Some b) \<Rightarrow>
               (let radius = (p_orbitRadius a + p_orbitRadius b) / 2;
                    inner = max 50 (radius - b_width belt / 2);
                    outer = inner + b_width belt
                in Some (inner, outer))
           | _ \<Rightarrow> None)" for ps
        unfolding canvas_beltBounds_def Anchored Some
        by (simp only: prod.case beltType.case option.case)
      then show ?thesis
        using a b
        by (cases "js_nth ps gi"; cases "js_nth ps' gi"; cases "js_nth ps (gi + 1)";
            cases "js_nth ps' (gi + 1)") (simp_all add: Let_def)
    qed
  qed
qed

lemma canvas_belt_orbits:
  "map p_orbitRadius ps = map p_orbitRadius ps' \<Longrightarrow>
   canvas_belt seed ps cx cy bi belt = canvas_belt seed ps' cx cy bi belt"
  unfolding canvas_belt_def by (simp only: beltBounds_orbits [of ps ps'])

lemma canvas_belts_planets:
  assumes "map p_orbitRadius (pr_planets pr) = map p_orbitRadius (pr_planets pr')"
    and "pr_seed pr = pr_seed pr'" and "pr_belts pr = pr_belts pr'"
  shows "canvas_belts pr cx cy = canvas_belts pr' cx cy"
proof -
  have "canvas_belt (pr_seed pr) (pr_planets pr) cx cy
      = canvas_belt (pr_seed pr') (pr_planets pr') cx cy"
    using canvas_belt_orbits [OF assms(1)] assms(2) by (intro ext) simp
  then show ?thesis unfolding canvas_belts_def assms(3) by simp
qed

lemma svg_beltBounds_eq: "svg_beltBounds seed ps bi belt = canvas_beltBounds seed ps bi belt"
  by (simp add: svg_beltBounds_def canvas_beltBounds_def)

lemma svg_beltParticles_orbits:
  "map p_orbitRadius ps = map p_orbitRadius ps' \<Longrightarrow>
   svg_beltParticles seed ps cx cy bi belt = svg_beltParticles seed ps' cx cy bi belt"
  unfolding svg_beltParticles_def svg_beltBounds_eq
  using beltBounds_orbits [of ps ps' seed bi belt] by simp

lemma svg_belts_planets:
  assumes "map p_orbitRadius (pr_planets pr) = map p_orbitRadius (pr_planets pr')"
    and "pr_seed pr = pr_seed pr'" and "pr_belts pr = pr_belts pr'"
  shows "svg_belts pr cx cy = svg_belts pr' cx cy"
proof -
  have "svg_beltParticles (pr_seed pr) (pr_planets pr) cx cy
      = svg_beltParticles (pr_seed pr') (pr_planets pr') cx cy"
    using svg_beltParticles_orbits [OF assms(1)] assms(2) by (intro ext) simp
  then show ?thesis unfolding svg_belts_def beltsData_def assms(3) by simp
qed

lemma editorProps_simps:
  "pr_seed (editorProps st) = ed_seed st"
  "pr_planets (editorProps st) = planets st"
  "pr_belts (editorProps st) = ed_belts st"
  "pr_stations (editorProps st) = ed_stations st"
  "pr_globalMoons (editorProps st) = 0"
  "pr_showMoons (editorProps st) = showMoons"
  "pr_moonMinSize (editorProps st) = moonMinSize"
  "pr_moonMaxSize (editorProps st) = moonMaxSize"
  "pr_moonOrbitMin (editorProps st) = moonOrbitMin"
  "pr_moonOrbitMax (editorProps st) = moonOrbitMax"
  by (simp_all add: editorProps_def)


lemma canvas_beltBounds_anchored:
  "b_type belt = Anchored \<Longrightarrow> b_gapIndex belt = Some gi \<Longrightarrow>
   canvas_beltBounds seed ps bi belt =
     (case (js_nth ps gi, js_nth ps (gi + 1)) of
        (Some a, Some b) \<Rightarrow>
          (let radius = (p_orbitRadius a + p_orbitRadius b) / 2;
               inner = max 50 (radius - b_width belt / 2);
               outer = inner + b_width belt
           in Some (inner, outer))
      | _ \<Rightarrow> None)"
  unfolding canvas_beltBounds_def by (simp only: prod.case beltType.case option.case)

lemma canvas_belts_split:
  assumes "pr_belts pr = bs1 @ belt # bs2"
  shows "canvas_belts pr cx cy =
     concat (map (\<lambda>(bi, b). canvas_belt (pr_seed pr) (pr_planets pr) cx cy bi b) (enumerate 0 bs1))
     @ canvas_belt (pr_seed pr) (pr_planets pr) cx cy (length bs1) belt
     @ concat (map (\<lambda>(bi, b). canvas_belt (pr_seed pr) (pr_planets pr) cx cy bi b)
                   (enumerate (Suc (length bs1)) bs2))"
  unfolding canvas_belts_def assms by (simp add: enumerate_append_eq)


section \<open>The seed is used through its low 32 bits\<close>

lemma mixSeed_cong:
  assumes "s mod 2 ^ 32 = s' mod 2 ^ 32"
  shows "mixSeed (s # rest) = mixSeed (s' # rest)"
proof -
  have "mixStep h s = mixStep h s'" for h
    by (simp add: mixStep_def word_of_int_cong32 [OF assms])
  then show ?thesis by (simp add: mixSeed_def)
qed

lemma xor32_cong:
  "s mod 2 ^ 32 = s' mod 2 ^ 32 \<Longrightarrow> xor32 s c = xor32 s' c"
  by (simp add: xor32_def word_of_int_cong32 [of s s'])

lemma moonsGen_cong:
  "s mod 2 ^ 32 = s' mod 2 ^ 32 \<Longrightarrow> moonsGen s = moonsGen s'"
  by (intro ext) (simp add: moonsGen_def mixSeed_cong [of s s'])

lemma ringsGen_cong:
  "s mod 2 ^ 32 = s' mod 2 ^ 32 \<Longrightarrow> ringsGen s = ringsGen s'"
  by (intro ext) (simp add: ringsGen_def mixSeed_cong [of s s'])

lemma basePlanets_loop_cong:
  assumes "s mod 2 ^ 32 = s' mod 2 ^ 32"
  shows "basePlanets_loop s k i t cur = basePlanets_loop s' k i t cur"
  by (induction k arbitrary: i t cur)
    (simp_all add: moonsGen_cong [OF assms] ringsGen_cong [OF assms] split_def Let_def)

lemma basePlanets_cong:
  "s mod 2 ^ 32 = s' mod 2 ^ 32 \<Longrightarrow> basePlanets s n = basePlanets s' n"
  by (simp add: basePlanets_def basePlanets_loop_cong [of s s'] mulberry32_cong [of s s'])

lemma defaultNames_cong:
  "s mod 2 ^ 32 = s' mod 2 ^ 32 \<Longrightarrow> defaultNames s n = defaultNames s' n"
  by (simp add: defaultNames_def length_basePlanets xor32_cong [of s s'])

lemma canvas_starfield_cong:
  "s mod 2 ^ 32 = s' mod 2 ^ 32 \<Longrightarrow> canvas_starfield s w h = canvas_starfield s' w h"
  by (simp add: canvas_starfield_def xor32_cong [of s s'])

lemma svg_starfield_cong:
  "s mod 2 ^ 32 = s' mod 2 ^ 32 \<Longrightarrow> svg_starfield s w h = svg_starfield s' w h"
  by (simp add: svg_starfield_def xor32_cong [of s s'])

lemma canvas_stars_cong:
  "s mod 2 ^ 32 = s' mod 2 ^ 32 \<Longrightarrow> canvas_stars s stars cx cy = canvas_stars s' stars cx cy"
  by (simp add: canvas_stars_def starPositions_def xor32_cong [of s s'])

lemma canvas_belt_cong:
  assumes "s mod 2 ^ 32 = s' mod 2 ^ 32"
  shows "canvas_belt s ps cx cy = canvas_belt s' ps cx cy"
  unfolding canvas_belt_def canvas_beltBounds_def mixSeed_cong [OF assms] by (rule refl)

lemma svg_beltParticles_cong:
  assumes "s mod 2 ^ 32 = s' mod 2 ^ 32"
  shows "svg_beltParticles s ps cx cy = svg_beltParticles s' ps cx cy"
  unfolding svg_beltParticles_def svg_beltBounds_def mixSeed_cong [OF assms] by (rule refl)

lemma canvas_moons_loop_seed:
  "canvas_moons_loop k t (pr\<lparr>pr_seed := s\<rparr>) p x y = canvas_moons_loop k t pr p x y"
  by (induction k arbitrary: t) (simp_all add: split_def Let_def)

lemma svg_moons_loop_seed:
  "svg_moons_loop k t (pr\<lparr>pr_seed := s\<rparr>) p idx x y = svg_moons_loop k t pr p idx x y"
  by (induction k arbitrary: t) (simp_all add: split_def Let_def)

lemma canvas_moons_cong:
  "s mod 2 ^ 32 = s' mod 2 ^ 32 \<Longrightarrow>
   canvas_moons (pr\<lparr>pr_seed := s\<rparr>) idx p x y = canvas_moons (pr\<lparr>pr_seed := s'\<rparr>) idx p x y"
  by (simp add: canvas_moons_def canvas_moons_loop_seed mixSeed_cong [of s s'] Let_def
      cong: if_cong option.case_cong)

lemma svg_planetMoons_cong:
  "s mod 2 ^ 32 = s' mod 2 ^ 32 \<Longrightarrow>
   svg_planetMoons (pr\<lparr>pr_seed := s\<rparr>) cx cy = svg_planetMoons (pr\<lparr>pr_seed := s'\<rparr>) cx cy"
  by (intro ext)
    (simp add: svg_planetMoons_def svg_moons_loop_seed mixSeed_cong [of s s'] Let_def
      cong: if_cong option.case_cong)

lemma canvas_labels_seed:
  "canvas_labels (pr\<lparr>pr_seed := s\<rparr>) bg m cx cy = canvas_labels pr bg m cx cy"
proof -
  have l: "canvas_label (pr\<lparr>pr_seed := s\<rparr>) = canvas_label pr"
    by (intro ext) (simp add: canvas_label_def)
  have "canvas_planetLabel (pr\<lparr>pr_seed := s\<rparr>) bg m cx cy = canvas_planetLabel pr bg m cx cy"
    by (intro ext) (simp add: canvas_planetLabel_def l)
  moreover have "canvas_stationLabel (pr\<lparr>pr_seed := s\<rparr>) bg m cx cy
      = canvas_stationLabel pr bg m cx cy"
    by (intro ext) (simp add: canvas_stationLabel_def l)
  ultimately show ?thesis by (simp add: canvas_labels_def)
qed

lemma svg_labels_seed:
  "svg_labels (pr\<lparr>pr_seed := s\<rparr>) cx cy = svg_labels pr cx cy"
proof -
  have l: "svg_label (pr\<lparr>pr_seed := s\<rparr>) = svg_label pr"
    by (intro ext) (simp add: svg_label_def measure_svg_def)
  have "svg_planetLabel (pr\<lparr>pr_seed := s\<rparr>) cx cy = svg_planetLabel pr cx cy"
    by (intro ext) (simp add: svg_planetLabel_def l)
  moreover have "svg_stationLabel (pr\<lparr>pr_seed := s\<rparr>) cx cy = svg_stationLabel pr cx cy"
    by (intro ext) (simp add: svg_stationLabel_def l)
  moreover have "svg_labelMarkup (pr\<lparr>pr_seed := s\<rparr>) = svg_labelMarkup pr"
    by (intro ext) (simp add: svg_labelMarkup_def)
  ultimately show ?thesis by (simp add: svg_labels_def labelData_def)
qed

lemma canvas_renderScene_cong:
  assumes "s mod 2 ^ 32 = s' mod 2 ^ 32"
  shows "canvas_renderScene (pr\<lparr>pr_seed := s\<rparr>) bg stars m w h
       = canvas_renderScene (pr\<lparr>pr_seed := s'\<rparr>) bg stars m w h"
proof -
  have 1: "canvas_planet (pr\<lparr>pr_seed := s\<rparr>) cx cy = canvas_planet (pr\<lparr>pr_seed := s'\<rparr>) cx cy"
    for cx cy
    by (intro ext) (simp add: canvas_planet_def canvas_moons_cong [OF assms])
  show ?thesis
    by (simp add: canvas_renderScene_def Let_def canvas_starfield_cong [OF assms]
        canvas_stars_cong [OF assms] canvas_belts_def canvas_belt_cong [OF assms]
        canvas_orbits_def canvas_planets_def 1 canvas_stations_def canvas_labels_seed)
qed

lemma svg_markup_cong:
  assumes "s mod 2 ^ 32 = s' mod 2 ^ 32"
  shows "svg_markup (pr\<lparr>pr_seed := s\<rparr>) w h mx my bx by
       = svg_markup (pr\<lparr>pr_seed := s'\<rparr>) w h mx my bx by"
proof -
  have 0: "moonData (pr\<lparr>pr_seed := s\<rparr>) cx cy = moonData (pr\<lparr>pr_seed := s'\<rparr>) cx cy" for cx cy
    by (simp add: moonData_def svg_planetMoons_cong [OF assms])
  have 1: "svg_planet (pr\<lparr>pr_seed := s\<rparr>) cx cy mx my
      = svg_planet (pr\<lparr>pr_seed := s'\<rparr>) cx cy mx my"
    for cx cy
    by (intro ext) (simp add: svg_planet_def svg_moons_def 0)
  show ?thesis
    by (simp add: svg_markup_def Let_def svg_starfield_cong [OF assms]
        svg_belts_def beltsData_def svg_beltParticles_cong [OF assms]
        svg_orbits_def svg_planets_def 1 svg_stations_def svg_labels_seed)
qed

lemma planets_cong:
  assumes "s mod 2 ^ 32 = s' mod 2 ^ 32"
  shows "planets (st\<lparr>ed_seed := s\<rparr>) = planets (st\<lparr>ed_seed := s'\<rparr>)"
proof -
  have f: "overrideField (st\<lparr>ed_seed := x\<rparr>) = overrideField st" for x
    by (intro ext) (simp add: overrideField_def overrideAt_def)
  have d: "ed_defaultNames (st\<lparr>ed_seed := s\<rparr>) = ed_defaultNames (st\<lparr>ed_seed := s'\<rparr>)"
    by (simp add: ed_defaultNames_def defaultNames_cong [OF assms])
  have c: "ed_customNames (st\<lparr>ed_seed := x\<rparr>) = ed_customNames st" for x
    by simp
  have g: "getPlanetName (st\<lparr>ed_seed := s\<rparr>) = getPlanetName (st\<lparr>ed_seed := s'\<rparr>)"
    by (intro ext) (simp only: getPlanetName_def f d c)
  have "composePlanet (st\<lparr>ed_seed := s\<rparr>) = composePlanet (st\<lparr>ed_seed := s'\<rparr>)"
    by (intro ext) (simp only: composePlanet_def f g)
  then show ?thesis
    by (simp add: planets_def ed_basePlanets_def basePlanets_cong [OF assms])
qed

lemma editorProps_seed:
  "editorProps (st\<lparr>ed_seed := s\<rparr>) = (editorProps st)\<lparr>pr_seed := s, pr_planets := planets (st\<lparr>ed_seed := s\<rparr>)\<rparr>"
  by (simp add: editorProps_def)

lemma exportPlanet_cong:
  "s mod 2 ^ 32 = s' mod 2 ^ 32 \<Longrightarrow> exportPlanet s = exportPlanet s'"
  by (intro ext) (simp add: exportPlanet_def mixSeed_cong [of s s'])

section \<open>Export and import\<close>











lemma roundtrip_fields:
  "ed_seed (importJSON (exportJSON st) st0) = ed_seed st"
  "ed_numPlanets (importJSON (exportJSON st) st0) = ed_numPlanets st"
  "ed_belts (importJSON (exportJSON st) st0) = ed_belts st"
  "ed_stations (importJSON (exportJSON st) st0) = map stationLabelShown (ed_stations st)"
  "ed_labelSize (importJSON (exportJSON st) st0) = ed_labelSize st"
  "ed_labelColor (importJSON (exportJSON st) st0) = ed_labelColor st"
  "ed_showLabelBackground (importJSON (exportJSON st) st0) = ed_showLabelBackground st"
  "ed_planetOverrides (importJSON (exportJSON st) st0) =
     map (\<lambda>p. Some (importOverride p))
       (map (\<lambda>(idx, p). exportPlanet (ed_seed st) idx p) (enumerate 0 (planets st)))"
  "ed_customNames (importJSON (exportJSON st) st0) =
     importNames 0 (map (\<lambda>(idx, p). exportPlanet (ed_seed st) idx p) (enumerate 0 (planets st)))
       Map.empty"
  by (simp_all add: importJSON_def exportJSON_def importPlanets_def importSettings_def Let_def
      length_planets importStation_def exportStation_def stationLabelShown_def)


lemma roundtrip_defaultNames:
  "ed_defaultNames (importJSON (exportJSON st) st0) = ed_defaultNames st"
  by (simp add: ed_defaultNames_def roundtrip_fields)















section \<open>The two renderers\<close>



lemma near_refl: "near x x"
  by (simp add: near_def)

lemma nearShape_refl: "nearShape s s"
  by (cases s) (simp add: list_all2_refl near_refl)

text \<open>Shapes that are near each other have outlines near each other.\<close>

lemma nearShape_outline: "nearShape s s' \<Longrightarrow> nearOutline s s'"
  by (cases s; cases s') simp


lemma degrees_of_radians: "degrees ((a * pi) / 180) = a"
  by (simp add: degrees_def)










text \<open>
  The band of a ring: both renderers give it the thickness \<^verbatim>\<open>widthRing\<close> on the first
  axis; on the second axis the canvas gives it \<^verbatim>\<open>widthRing * flatten\<close>, the vector
  renderer \<^verbatim>\<open>widthRing\<close>.
\<close>

lemma ring_widths:
  assumes "p_rings p = Some r" and "r_enabled r"
  shows "canvas_ring p x y =
           [Shape StrokeEllipse []
              [x, y, p_size p + max 0 (r_gap r) + max 1 (r_width r) / 2,
               (p_size p + max 0 (r_gap r) + max 1 (r_width r) / 2)
                 * min 1 (max (2 / 10) (r_flatten r)),
               r_angleDeg r]
              [max 1 (r_width r), max 1 (r_width r) * min 1 (max (2 / 10) (r_flatten r))]]"
    and "svg_ring p x y =
           [Shape StrokeEllipse []
              [x, y, p_size p + max 0 (r_gap r) + max 1 (r_width r) / 2,
               (p_size p + max 0 (r_gap r) + max 1 (r_width r) / 2)
                 * min 1 (max (2 / 10) (r_flatten r)),
               toFixed2 (r_angleDeg r)]
              [max 1 (r_width r), max 1 (r_width r)]]"
  using assms by (simp_all add: canvas_ring_def svg_ring_def Let_def degrees_def)













text \<open>
  The moons and the belt particles of a list computed with another centre are displaced
  by the difference of the centres.
\<close>

lemma svg_moons_loop_displaced:
  "svg_moons_loop k t pr p idx (px + dx) (py + dy)
   = map (\<lambda>m. m\<lparr>sm_x := sm_x m + dx, sm_y := sm_y m + dy\<rparr>)
         (svg_moons_loop k t pr p idx px py)"
  by (induction k arbitrary: t) (simp_all add: split_def Let_def algebra_simps)

lemma moonData_displaced:
  "moonData pr (cx + dx) (cy + dy)
   = map (\<lambda>m. m\<lparr>sm_x := sm_x m + dx, sm_y := sm_y m + dy\<rparr>) (moonData pr cx cy)"
proof -
  have "svg_planetMoons pr (cx + dx) (cy + dy) idx p
      = map (\<lambda>m. m\<lparr>sm_x := sm_x m + dx, sm_y := sm_y m + dy\<rparr>)
            (svg_planetMoons pr cx cy idx p)"
    for idx p
    using svg_moons_loop_displaced [of _ _ pr p idx
        "cx + cos (p_angle p) * p_orbitRadius p" dx "cy + sin (p_angle p) * p_orbitRadius p" dy]
    by (simp add: svg_planetMoons_def Let_def add.assoc add.commute add.left_commute)
  then show ?thesis
    by (simp add: moonData_def map_concat comp_def split_def)
qed

lemma svg_particles_loop_displaced:
  "svg_particles_loop k t i o' (cx + dx) (cy + dy)
   = map (\<lambda>(x, y, s). (x + dx, y + dy, s)) (svg_particles_loop k t i o' cx cy)"
  by (induction k arbitrary: t) (simp_all add: split_def Let_def algebra_simps)

lemma beltsData_displaced:
  "beltsData pr (cx + dx) (cy + dy)
   = map (map (\<lambda>(x, y, s). (x + dx, y + dy, s))) (beltsData pr cx cy)"
  by (simp add: beltsData_def svg_beltParticles_def svg_particles_loop_displaced split_def
      split: option.splits)






section \<open>Stream values\<close>

text \<open>
  C9. Every call of a stream created by \<^verbatim>\<open>mulberry32(mixSeed(...))\<close> returns a number
  \<open>v\<close> with \<open>0 \<le> v < 1\<close>, and a stream created from the same stream seed (or from one
  with the same low 32 bits) produces the same sequence of numbers.
\<close>

theorem stream_values_in_unit_interval:
  "(\<forall>v \<in> set (draws k (mulberry32 (mixSeed parts))). 0 \<le> v \<and> v < 1) \<and>
   length (draws k (mulberry32 (mixSeed parts))) = k \<and>
   (s mod 2 ^ 32 = mixSeed parts mod 2 ^ 32 \<longrightarrow>
      draws k (mulberry32 s) = draws k (mulberry32 (mixSeed parts)))"
  using draws_range length_draws mulberry32_cong [of s "mixSeed parts"] by auto

theorem stream_values_in_unit_interval_witness:
  "mixSeed [1, 2, 3] = 1623565008 \<and>
   draws 1 (mulberry32 5918532304) = [4227866038 / 4294967296] \<and>
   draws 1 (mulberry32 (mixSeed [1, 2, 3])) = [4227866038 / 4294967296] \<and>
   0 \<le> (4227866038 / 4294967296 :: real) \<and> (4227866038 / 4294967296 :: real) < 1"
proof -
  have m: "mixSeed [1, 2, 3] = 1623565008"
    by (simp add: mixSeed_def mixStep_def imul_def Let_def)
  have d: "draws 1 (mulberry32 1623565008) = [4227866038 / 4294967296]"
    by (simp add: mulberry32_def mulberry32_call_def imul_def Let_def)
  show ?thesis
    using stream_values_in_unit_interval [of 1 "[1, 2, 3]" 5918532304] m d by simp
qed

section \<open>Properties of the generated planets\<close>

text \<open>
  C4. In every generated planet list the orbit radii increase strictly with the index, and
  the radius of the first planet lies between 40 + 35 = 75 and 40 + 70 = 110. The composed
  planets of the scene have the orbit radii of the generated ones.
\<close>

theorem orbit_radii_strictly_increasing:
  "length (basePlanets seed n) = n \<and>
   (i < j \<and> j < n \<longrightarrow>
      p_orbitRadius (basePlanets seed n ! i) < p_orbitRadius (basePlanets seed n ! j)) \<and>
   (0 < n \<longrightarrow>
      75 \<le> p_orbitRadius (basePlanets seed n ! 0) \<and>
      p_orbitRadius (basePlanets seed n ! 0) \<le> 110) \<and>
   map p_orbitRadius (planets st) = map p_orbitRadius (basePlanets (ed_seed st) (ed_numPlanets st))"
proof (intro conjI impI)
  show "length (basePlanets seed n) = n"
    by (simp add: basePlanets_def length_loop)
next
  assume ij: "i < j \<and> j < n"
  have "sorted_wrt (<) (map p_orbitRadius (basePlanets seed n))"
    by (simp add: basePlanets_def loop_sorted)
  moreover have "j < length (map p_orbitRadius (basePlanets seed n))"
    using ij by (simp add: basePlanets_def length_loop)
  ultimately have "map p_orbitRadius (basePlanets seed n) ! i < map p_orbitRadius (basePlanets seed n) ! j"
    using ij sorted_wrt_nth_less by blast
  then show "p_orbitRadius (basePlanets seed n ! i) < p_orbitRadius (basePlanets seed n ! j)"
    using ij by (simp add: basePlanets_def length_loop)
next
  assume "0 < n"
  then obtain k where n: "n = Suc k" by (cases n) auto
  have r: "0 \<le> fst (mulberry32_call (mulberry32 seed)) \<and> fst (mulberry32_call (mulberry32 seed)) < 1"
    by (rule mulberry32_call_range)
  have e: "p_orbitRadius (basePlanets seed n ! 0) = 40 + (35 + fst (mulberry32_call (mulberry32 seed)) * 35)"
    unfolding basePlanets_def n by (rule loop_first)
  show "75 \<le> p_orbitRadius (basePlanets seed n ! 0)" using r e by simp
  show "p_orbitRadius (basePlanets seed n ! 0) \<le> 110" using r e by simp
next
  show "map p_orbitRadius (planets st) = map p_orbitRadius (basePlanets (ed_seed st) (ed_numPlanets st))"
    using planets_orbits [of st] by (simp add: ed_basePlanets_def)
qed

theorem orbit_radii_strictly_increasing_witness:
  "(0::nat) < 1 \<and> (1::nat) < 6 \<and>
   p_orbitRadius (basePlanets 123456789 6 ! 0) < p_orbitRadius (basePlanets 123456789 6 ! 1) \<and>
   75 \<le> p_orbitRadius (basePlanets 123456789 6 ! 0) \<and>
   p_orbitRadius (basePlanets 123456789 6 ! 0) \<le> 110"
  using orbit_radii_strictly_increasing [of 123456789 6 0 1] by simp

section \<open>Determinism and isolation\<close>

text \<open>
  C1. Scene generation is deterministic: two editor states with the same seed and planet
  count have the same base planets (with their moon counts and rings), whatever else
  differs between them, and with the same belts also the same belt particles.
\<close>

theorem generation_deterministic:
  "ed_seed st = ed_seed st' \<and> ed_numPlanets st = ed_numPlanets st' \<longrightarrow>
     ed_basePlanets st = ed_basePlanets st' \<and>
     (ed_belts st = ed_belts st' \<longrightarrow>
        canvas_belts (editorProps st) cx cy = canvas_belts (editorProps st') cx cy \<and>
        svg_belts (editorProps st) cx cy = svg_belts (editorProps st') cx cy)"
proof (intro impI conjI)
  assume a: "ed_seed st = ed_seed st' \<and> ed_numPlanets st = ed_numPlanets st'"
  then show b: "ed_basePlanets st = ed_basePlanets st'" by (simp add: ed_basePlanets_def)
  assume c: "ed_belts st = ed_belts st'"
  have o: "map p_orbitRadius (pr_planets (editorProps st))
         = map p_orbitRadius (pr_planets (editorProps st'))"
    by (simp add: editorProps_simps planets_orbits b)
  show "canvas_belts (editorProps st) cx cy = canvas_belts (editorProps st') cx cy"
    by (rule canvas_belts_planets [OF o]) (simp_all add: editorProps_simps a c)
  show "svg_belts (editorProps st) cx cy = svg_belts (editorProps st') cx cy"
    by (rule svg_belts_planets [OF o]) (simp_all add: editorProps_simps a c)
qed

theorem generation_deterministic_witness:
  "ed_seed (initialEditor 5) = ed_seed ((initialEditor 5)\<lparr>ed_labelSize := 20\<rparr>) \<and>
   ed_numPlanets (initialEditor 5) = ed_numPlanets ((initialEditor 5)\<lparr>ed_labelSize := 20\<rparr>) \<and>
   ed_belts (initialEditor 5) = ed_belts ((initialEditor 5)\<lparr>ed_labelSize := 20\<rparr>) \<and>
   initialEditor 5 \<noteq> (initialEditor 5)\<lparr>ed_labelSize := 20\<rparr> \<and>
   ed_basePlanets (initialEditor 5) = ed_basePlanets ((initialEditor 5)\<lparr>ed_labelSize := 20\<rparr>) \<and>
   canvas_belts (editorProps (initialEditor 5)) 600 350
     = canvas_belts (editorProps ((initialEditor 5)\<lparr>ed_labelSize := 20\<rparr>)) 600 350"
proof -
  have "ed_labelSize (initialEditor 5) \<noteq> ed_labelSize ((initialEditor 5)\<lparr>ed_labelSize := 20\<rparr>)"
    by (simp add: initialEditor_def)
  then have "initialEditor 5 \<noteq> (initialEditor 5)\<lparr>ed_labelSize := 20\<rparr>" by metis
  then show ?thesis
    using generation_deterministic
      [of "initialEditor 5" "(initialEditor 5)\<lparr>ed_labelSize := 20\<rparr>" 600 350]
    by simp
qed


text \<open>
  C2. Override isolation: changing the override of planet \<open>i\<close> leaves every composed
  planet \<open>j \<noteq> i\<close> as it was, and the belts and stations and what is drawn for them.
\<close>

theorem override_isolation:
  "(j \<noteq> i \<and> j < ed_numPlanets st \<longrightarrow>
      planets (onPlanetChange i upd st) ! j = planets st ! j) \<and>
   length (planets (onPlanetChange i upd st)) = length (planets st) \<and>
   ed_belts (onPlanetChange i upd st) = ed_belts st \<and>
   ed_stations (onPlanetChange i upd st) = ed_stations st \<and>
   canvas_belts (editorProps (onPlanetChange i upd st)) cx cy = canvas_belts (editorProps st) cx cy \<and>
   canvas_stations (editorProps (onPlanetChange i upd st)) cx cy
     = canvas_stations (editorProps st) cx cy"
proof (intro conjI impI)
  assume "j \<noteq> i \<and> j < ed_numPlanets st"
  then show "planets (onPlanetChange i upd st) ! j = planets st ! j"
    by (simp add: nth_planets onPlanetChange_numPlanets onPlanetChange_basePlanets
        composePlanet_onPlanetChange_other)
next
  show "length (planets (onPlanetChange i upd st)) = length (planets st)"
    by (simp add: length_planets onPlanetChange_numPlanets)
next
  show "ed_belts (onPlanetChange i upd st) = ed_belts st" by (rule onPlanetChange_belts)
next
  show "ed_stations (onPlanetChange i upd st) = ed_stations st" by (rule onPlanetChange_stations)
next
  show "canvas_belts (editorProps (onPlanetChange i upd st)) cx cy = canvas_belts (editorProps st) cx cy"
    by (rule canvas_belts_planets)
      (simp_all add: editorProps_simps planets_orbits onPlanetChange_basePlanets
        onPlanetChange_seed onPlanetChange_belts)
next
  show "canvas_stations (editorProps (onPlanetChange i upd st)) cx cy
     = canvas_stations (editorProps st) cx cy"
    by (simp add: canvas_stations_def editorProps_simps onPlanetChange_stations)
qed

lemma planet_size_overridden:
  "i < ed_numPlanets st \<Longrightarrow> overrideField st i pm_size = Some v \<Longrightarrow> p_size (planets st ! i) = v"
  by (simp add: nth_planets composePlanet_def)

theorem override_isolation_witness:
  "(1::nat) \<noteq> 0 \<and> 1 < ed_numPlanets (initialEditor 123456789) \<and>
   p_size (planets (onPlanetChange 0 (emptyModel\<lparr>pm_size := Some 20\<rparr>) (initialEditor 123456789)) ! 0) = 20 \<and>
   planets (onPlanetChange 0 (emptyModel\<lparr>pm_size := Some 20\<rparr>) (initialEditor 123456789)) ! 1
     = planets (initialEditor 123456789) ! 1"
proof -
  have n: "ed_numPlanets (initialEditor 123456789) = 6" by (simp add: initialEditor_def)
  have "overrideField (onPlanetChange 0 (emptyModel\<lparr>pm_size := Some 20\<rparr>) (initialEditor 123456789)) 0 pm_size
      = Some 20"
    by (simp add: overrideField_def overrideAt_onPlanetChange_same spreadModel_def spread1_def)
  then have "p_size (planets (onPlanetChange 0 (emptyModel\<lparr>pm_size := Some 20\<rparr>) (initialEditor 123456789)) ! 0) = 20"
    by (intro planet_size_overridden) (simp_all add: onPlanetChange_numPlanets n)
  then show ?thesis
    using override_isolation [of 1 0 "initialEditor 123456789" "emptyModel\<lparr>pm_size := Some 20\<rparr>" 0 0] n
    by simp
qed

section \<open>Belts\<close>

text \<open>
  C5. An anchored belt whose two planets exist lies about the mean of their orbit radii:
  its inner radius is the larger of 50 and the mean less half the width, its outer radius
  the inner radius plus the width. An anchored belt one of whose planets does not exist
  draws nothing, and the scene is drawn as it is without the particles of this belt, the
  other belts at their own indices.
\<close>

theorem anchored_belt_resolution:
  "(b_type belt = Anchored \<and> b_gapIndex belt = Some gi \<and>
    js_nth ps gi = Some a \<and> js_nth ps (gi + 1) = Some b \<longrightarrow>
      canvas_beltBounds seed ps bi belt =
        Some (max 50 ((p_orbitRadius a + p_orbitRadius b) / 2 - b_width belt / 2),
              max 50 ((p_orbitRadius a + p_orbitRadius b) / 2 - b_width belt / 2) + b_width belt)) \<and>
   (b_type belt = Anchored \<and> b_gapIndex belt = Some gi \<and>
    (js_nth (pr_planets pr) gi = None \<or> js_nth (pr_planets pr) (gi + 1) = None) \<and>
    pr_belts pr = bs1 @ belt # bs2 \<longrightarrow>
      canvas_belt (pr_seed pr) (pr_planets pr) (width / 2) (h / 2) (length bs1) belt = [] \<and>
      canvas_renderScene pr background stars measureText width h =
        [Shape FillRect [] [0, 0, width, h] []]
        @ canvas_starfield (pr_seed pr) width h
        @ canvas_stars (pr_seed pr) stars (width / 2) (h / 2)
        @ concat (map (\<lambda>(bi, b). canvas_belt (pr_seed pr) (pr_planets pr) (width / 2) (h / 2) bi b)
                      (enumerate 0 bs1))
        @ concat (map (\<lambda>(bi, b). canvas_belt (pr_seed pr) (pr_planets pr) (width / 2) (h / 2) bi b)
                      (enumerate (Suc (length bs1)) bs2))
        @ canvas_orbits pr (width / 2) (h / 2)
        @ canvas_planets pr (width / 2) (h / 2)
        @ canvas_stations pr (width / 2) (h / 2)
        @ canvas_labels pr background measureText (width / 2) (h / 2))"
proof (intro conjI impI)
  assume "b_type belt = Anchored \<and> b_gapIndex belt = Some gi \<and>
    js_nth ps gi = Some a \<and> js_nth ps (gi + 1) = Some b"
  then show "canvas_beltBounds seed ps bi belt =
        Some (max 50 ((p_orbitRadius a + p_orbitRadius b) / 2 - b_width belt / 2),
              max 50 ((p_orbitRadius a + p_orbitRadius b) / 2 - b_width belt / 2) + b_width belt)"
    by (simp add: canvas_beltBounds_anchored Let_def)
next
  assume a: "b_type belt = Anchored \<and> b_gapIndex belt = Some gi \<and>
    (js_nth (pr_planets pr) gi = None \<or> js_nth (pr_planets pr) (gi + 1) = None) \<and>
    pr_belts pr = bs1 @ belt # bs2"
  then have "canvas_beltBounds (pr_seed pr) (pr_planets pr) bi belt = None" for bi
    by (auto simp: canvas_beltBounds_anchored split: option.splits)
  then show s: "canvas_belt (pr_seed pr) (pr_planets pr) (width / 2) (h / 2) (length bs1) belt = []"
    by (simp add: canvas_belt_def)
  have "pr_belts pr = bs1 @ belt # bs2" using a by simp
  from canvas_belts_split [OF this, of "width / 2" "h / 2"] s
  show "canvas_renderScene pr background stars measureText width h =
        [Shape FillRect [] [0, 0, width, h] []]
        @ canvas_starfield (pr_seed pr) width h
        @ canvas_stars (pr_seed pr) stars (width / 2) (h / 2)
        @ concat (map (\<lambda>(bi, b). canvas_belt (pr_seed pr) (pr_planets pr) (width / 2) (h / 2) bi b)
                      (enumerate 0 bs1))
        @ concat (map (\<lambda>(bi, b). canvas_belt (pr_seed pr) (pr_planets pr) (width / 2) (h / 2) bi b)
                      (enumerate (Suc (length bs1)) bs2))
        @ canvas_orbits pr (width / 2) (h / 2)
        @ canvas_planets pr (width / 2) (h / 2)
        @ canvas_stations pr (width / 2) (h / 2)
        @ canvas_labels pr background measureText (width / 2) (h / 2)"
    by (simp add: canvas_renderScene_def Let_def)
qed

theorem anchored_belt_resolution_witness:
  "canvas_beltBounds 7 [examplePlanet 60, examplePlanet 100, examplePlanet 160] 0
     \<lparr> b_type = Anchored, b_width = 40, b_density = 0.5, b_gapIndex = Some 1 \<rparr> = Some (110, 150) \<and>
   canvas_belt 7 [examplePlanet 60, examplePlanet 100, examplePlanet 160] 600 350 0
     \<lparr> b_type = Anchored, b_width = 40, b_density = 0.5, b_gapIndex = Some 2 \<rparr> = []"
proof -
  let ?ps = "[examplePlanet 60, examplePlanet 100, examplePlanet 160]"
  let ?b1 = "\<lparr> b_type = Anchored, b_width = 40, b_density = 0.5, b_gapIndex = Some 1 \<rparr>"
  let ?b2 = "\<lparr> b_type = Anchored, b_width = 40, b_density = 0.5, b_gapIndex = Some 2 \<rparr>"
  let ?pr = "(editorProps (initialEditor 7))\<lparr> pr_planets := ?ps, pr_belts := [?b2] \<rparr>"
  have 1: "canvas_beltBounds 7 ?ps 0 ?b1 = Some (110, 150)"
    using anchored_belt_resolution [of ?b1 1 ?ps "examplePlanet 100" "examplePlanet 160" 7 0]
    by (simp add: js_nth_def examplePlanet_def)
  have 2: "canvas_belt 7 ?ps 600 350 0 ?b2 = []"
    using anchored_belt_resolution [of ?b2 2 _ _ _ _ _ ?pr "[]" "[]" 1200 700]
    by (simp add: js_nth_def editorProps_def initialEditor_def)
  from 1 2 show ?thesis by simp
qed

section \<open>Moon counts\<close>

lemma moonsGen_example: "moonsGen 123456789 1 = 2"
  by (simp add: moonsGen_def mixSeed_def mixStep_def mulberry32_call_def mulberry32_def
      imul_def Let_def jsfloor_def)

text \<open>
  C6. The generated moon count is not the count of the composed scene: for the seed
  123456789 the generator draws 2 moons for the planet of index 1, the composed planet
  has no moon count without an override, the canvas draws no moon for it and the export
  writes none.
\<close>

theorem generated_moon_count_unused:
  "p_moons (ed_basePlanets (initialEditor 123456789) ! 1) = Some 2 \<and>
   p_moons (planets (initialEditor 123456789) ! 1) = None \<and>
   canvas_moons (editorProps (initialEditor 123456789)) 1
     (planets (initialEditor 123456789) ! 1) x y = [] \<and>
   dp_moons (exportPlanet 123456789 1 (planets (initialEditor 123456789) ! 1)) = []"
proof -
  have n: "ed_numPlanets (initialEditor 123456789) = 6" by (simp add: initialEditor_def)
  have a: "p_moons (ed_basePlanets (initialEditor 123456789) ! 1) = Some 2"
    using basePlanets_moons [of 1 6 123456789] moonsGen_example
    by (simp add: ed_basePlanets_def initialEditor_def)
  have b: "p_moons (planets (initialEditor 123456789) ! 1) = None"
    using planet_moons_composed [of 1 "initialEditor 123456789"] n
    by (simp add: overrideField_def overrideAt_def initialEditor_def)
  have c: "canvas_moons (editorProps (initialEditor 123456789)) 1
     (planets (initialEditor 123456789) ! 1) x y = []"
    using b by (simp add: canvas_moons_def editorProps_simps Let_def)
  have d: "dp_moons (exportPlanet 123456789 1 (planets (initialEditor 123456789) ! 1)) = []"
    using b by (simp add: exportPlanet_def toLength_def Let_def)
  from a b c d show ?thesis by simp
qed

section \<open>Seeds modulo \<open>2 ^ 32\<close>\<close>

text \<open>
  C10. The seed is used through its low 32 bits only: two seeds that are congruent
  modulo \<open>2 ^ 32\<close> give the same base planets (with moon counts and rings), default names
  and composed planets, the same drawing of both renderers (starfield, stars, belt
  particles, moons) and the same planets and moons in the exported document.
\<close>

theorem seed_used_modulo_2_32:
  "s mod 2 ^ 32 = s' mod 2 ^ 32 \<longrightarrow>
     basePlanets s n = basePlanets s' n \<and>
     defaultNames s n = defaultNames s' n \<and>
     planets (st\<lparr>ed_seed := s\<rparr>) = planets (st\<lparr>ed_seed := s'\<rparr>) \<and>
     canvas_renderScene (editorProps (st\<lparr>ed_seed := s\<rparr>)) background stars measureText width h
       = canvas_renderScene (editorProps (st\<lparr>ed_seed := s'\<rparr>)) background stars measureText
           width h \<and>
     svg_markup (editorProps (st\<lparr>ed_seed := s\<rparr>)) width h mx my bx by
       = svg_markup (editorProps (st\<lparr>ed_seed := s'\<rparr>)) width h mx my bx by \<and>
     d_planets (exportJSON (st\<lparr>ed_seed := s\<rparr>)) = d_planets (exportJSON (st\<lparr>ed_seed := s'\<rparr>))"
proof (intro impI conjI)
  assume a: "s mod 2 ^ 32 = s' mod 2 ^ 32"
  show "basePlanets s n = basePlanets s' n" by (rule basePlanets_cong [OF a])
  show "defaultNames s n = defaultNames s' n" by (rule defaultNames_cong [OF a])
  show p: "planets (st\<lparr>ed_seed := s\<rparr>) = planets (st\<lparr>ed_seed := s'\<rparr>)"
    by (rule planets_cong [OF a])
  have e: "editorProps (st\<lparr>ed_seed := x\<rparr>)
      = (editorProps st)\<lparr>pr_planets := planets (st\<lparr>ed_seed := x\<rparr>), pr_seed := x\<rparr>" for x
    by (simp add: editorProps_def)
  show "canvas_renderScene (editorProps (st\<lparr>ed_seed := s\<rparr>)) background stars measureText width h
       = canvas_renderScene (editorProps (st\<lparr>ed_seed := s'\<rparr>)) background stars measureText
           width h"
    unfolding e p by (rule canvas_renderScene_cong [OF a])
  show "svg_markup (editorProps (st\<lparr>ed_seed := s\<rparr>)) width h mx my bx by
       = svg_markup (editorProps (st\<lparr>ed_seed := s'\<rparr>)) width h mx my bx by"
    unfolding e p by (rule svg_markup_cong [OF a])
  show "d_planets (exportJSON (st\<lparr>ed_seed := s\<rparr>)) = d_planets (exportJSON (st\<lparr>ed_seed := s'\<rparr>))"
    by (simp add: exportJSON_def p exportPlanet_cong [OF a])
qed

theorem seed_used_modulo_2_32_witness:
  "(123456789 :: int) mod 2 ^ 32 = 4418424085 mod 2 ^ 32 \<and>
   (123456789 :: int) \<noteq> 4418424085 \<and>
   basePlanets 123456789 6 = basePlanets 4418424085 6 \<and>
   defaultNames 123456789 6 = defaultNames 4418424085 6 \<and>
   svg_markup (editorProps ((initialEditor 0)\<lparr>ed_seed := 123456789\<rparr>)) 1200 700 600 350 600 350
     = svg_markup (editorProps ((initialEditor 0)\<lparr>ed_seed := 4418424085\<rparr>)) 1200 700
         600 350 600 350"
  using seed_used_modulo_2_32
    [of 123456789 4418424085 6 "initialEditor 0" _ _ _ 1200 700 600 350 600 350]
  by simp

section \<open>The planet count\<close>

text \<open>
  C8. The planet count is not clamped on every path: the slider and the number field
  clamp it to 0..20, the import sets it to the length of the planets array of the document.
\<close>

theorem import_sets_unclamped_planet_count:
  "ed_numPlanets
     (importJSON
        \<lparr> d_seed = Some 42, d_settings = None,
          d_planets = Some (replicate 21
            \<lparr> dp_orbitRadius = 100, dp_size = Some 5, dp_angle = 0, dp_color = Some ''#8AB4F8'',
              dp_name = Some ''P'', dp_moonsCount = None, dp_rings = None, dp_x = 100, dp_y = 0,
              dp_moons = [], dp_showLabel = Some True \<rparr>) \<rparr>
        (initialEditor 42)) = 21 \<and>
   ed_numPlanets (handleNumChange 21 (initialEditor 42)) = 20"
  by (simp add: importJSON_def importPlanets_def handleNumChange_def Let_def)


section \<open>The snapshot round trip\<close>










section \<open>The vector renderer against the canvas renderer\<close>




end
